theory Spec2Isabelle
  imports Complex_Main "HOL-Library.AList"
begin

section \<open>JavaScript values used by the three scripts\<close>

text \<open>
  Timestamps are the integer milliseconds of \<^verbatim>\<open>Date.now()\<close>.  Playback positions and
  volumes are finite JavaScript numbers, modelled as reals.  A JavaScript \<^verbatim>\<open>Map\<close> keeps its keys
  in insertion order, \<^verbatim>\<open>set\<close> on a present key keeps the key's position and \<^verbatim>\<open>set\<close> on an
  absent key appends: this is an association list with \<^const>\<open>AList.update\<close> and
  \<^const>\<open>AList.delete\<close>, looked up by \<^const>\<open>map_of\<close>.
\<close>

definition digit_char :: "nat \<Rightarrow> char" where
  "digit_char d = ''0123456789'' ! d"

fun digits :: "nat \<Rightarrow> string" where
  "digits n = (if n < 10 then [digit_char n] else digits (n div 10) @ [digit_char (n mod 10)])"

declare digits.simps [simp del]

definition show_int :: "int \<Rightarrow> string" where
  "show_int i = (if i < 0 then CHR ''-'' # digits (nat (- i)) else digits (nat i))"

text \<open>\<^verbatim>\<open>Map.prototype.delete\<close> reports whether the key was present.\<close>

definition map_delete :: "'k \<Rightarrow> ('k \<times> 'v) list \<Rightarrow> bool \<times> ('k \<times> 'v) list" where
  "map_delete k al = (k \<in> fst ` set al, AList.delete k al)"

section \<open>The coordinator: \<^verbatim>\<open>MediaSessionManager\<close> of background.js\<close>

text \<open>
  The \<^verbatim>\<open>state\<close> object of a snapshot.  The coordinator copies the duration and never
  computes with it, so its type is left open: the agent sends what the media element
  reports, which may be infinite, and the popup's arithmetic is modelled on finite
  durations (reals), where 0 stands for an unknown duration as both senders write
  \<^verbatim>\<open>duration || 0\<close>.
\<close>

record 'd playback_state =
  paused :: bool
  muted :: bool
  volume :: real
  currentTime :: real
  duration :: 'd
  canSeek :: bool
  ended :: bool

record 'd session =
  session_id :: string
  tabId :: int
  frameId :: int
  title :: string
  url :: string
  favIconUrl :: "string option"
  artworkUrl :: "string option"
  state :: "'d playback_state"
  lastActiveAt :: int

text \<open>
  The payload of a \<^verbatim>\<open>SESSION_UPDATE\<close> message.  A field that the sender left out is
  \<^const>\<open>None\<close>.
\<close>

record 'd session_data =
  sd_title :: "string option"
  sd_artworkUrl :: "string option"
  sd_state :: "'d playback_state option"

text \<open>What \<^verbatim>\<open>browserAPI.tabs.get\<close> resolves to.\<close>

record tab =
  tab_title :: string
  tab_url :: string
  tab_favIconUrl :: "string option"

datatype 'd message =
    SESSIONS_INIT "'d session list"
  | SESSION_UPDATED "'d session"
  | SESSION_REMOVED string

text \<open>
  The manager's fields.  \<open>broadcasts\<close> is the log of the calls of
  \<^verbatim>\<open>broadcastToPopups\<close>, oldest first: every connected popup port is posted each message
  of the log.
\<close>

record 'd manager =
  sessions :: "(string \<times> 'd session) list"
  lastActiveSessionId :: "string option"
  lastBroadcastTimestamps :: "string \<rightharpoonup> int"
  broadcasts :: "'d message list"

definition broadcastToPopups :: "'d message \<Rightarrow> 'd manager \<Rightarrow> 'd manager" where
  "broadcastToPopups msg m = m\<lparr>broadcasts := broadcasts m @ [msg]\<rparr>"

text \<open>The template literal \<^verbatim>\<open>`${tabId}:${frameId}`\<close>.\<close>

definition sessionIdOf :: "int \<Rightarrow> int \<Rightarrow> string" where
  "sessionIdOf tid fid = show_int tid @ '':'' @ show_int fid"

text \<open>\<^verbatim>\<open>sessionData.title || tab.title\<close>: an absent or empty title is falsy.\<close>

definition title_or :: "string option \<Rightarrow> string \<Rightarrow> string" where
  "title_or t d = (case t of None \<Rightarrow> d | Some s \<Rightarrow> if s = [] then d else s)"

text \<open>
  \<^verbatim>\<open>updateSession\<close>.  The body runs when the promise of \<^verbatim>\<open>tabs.get\<close> settles: on
  rejection (\<open>tabResult = None\<close>) the \<^verbatim>\<open>catch\<close> only logs.  A snapshot without a
  \<^verbatim>\<open>state\<close> raises a TypeError at the first read of \<^verbatim>\<open>session.state.paused\<close>, which
  every path reaches before the first assignment to a field of the manager, and the same
  \<^verbatim>\<open>catch\<close> logs it.  \<open>now\<close> is the \<^verbatim>\<open>Date.now()\<close> read in the callback.
\<close>

definition updateSession ::
  "'d session_data \<Rightarrow> int \<Rightarrow> int \<Rightarrow> tab option \<Rightarrow> int \<Rightarrow> 'd manager \<Rightarrow> 'd manager" where
  "updateSession sessionData tid fid tabResult now m =
    (let sessionId = sessionIdOf tid fid in
     case tabResult of
       None \<Rightarrow> m
     | Some tb \<Rightarrow>
       (case sd_state sessionData of
          None \<Rightarrow> m
        | Some st \<Rightarrow>
          (let prev = map_of (sessions m) sessionId;
               lastActiveAt0 = (case prev of Some p \<Rightarrow> lastActiveAt p | None \<Rightarrow> now);
               session0 = \<lparr>session_id = sessionId, tabId = tid, frameId = fid,
                           title = title_or (sd_title sessionData) (tab_title tb),
                           url = tab_url tb, favIconUrl = tab_favIconUrl tb,
                           artworkUrl = sd_artworkUrl sessionData, state = st,
                           lastActiveAt = lastActiveAt0\<rparr>;
               becamePlaying =
                 (case prev of
                    Some p \<Rightarrow> paused (state p) \<and> \<not> paused st
                  | None \<Rightarrow> \<not> paused st);
               session1 = (if becamePlaying then session0\<lparr>lastActiveAt := now\<rparr> else session0);
               m1 = (if becamePlaying then m\<lparr>lastActiveSessionId := Some sessionId\<rparr> else m);
               lastBroadcast = (case lastBroadcastTimestamps m1 sessionId of
                                  None \<Rightarrow> 0 | Some t \<Rightarrow> t);
               isStateChange = (case prev of
                                  None \<Rightarrow> True
                                | Some p \<Rightarrow> paused (state p) \<noteq> paused st);
               throttleMs = 300;
               shouldBroadcast = (isStateChange \<or> now - lastBroadcast \<ge> throttleMs \<or> prev = None);
               m2 = m1\<lparr>sessions := AList.update sessionId session1 (sessions m1)\<rparr>
           in if shouldBroadcast
              then broadcastToPopups (SESSION_UPDATED session1)
                     (m2\<lparr>lastBroadcastTimestamps :=
                           (lastBroadcastTimestamps m2)(sessionId \<mapsto> now)\<rparr>)
              else m2)))"

text \<open>The record that a processed snapshot leaves in the registry, field by field.\<close>

definition stored_session ::
  "'d session_data \<Rightarrow> 'd playback_state \<Rightarrow> int \<Rightarrow> int \<Rightarrow> tab \<Rightarrow> int \<Rightarrow> 'd manager
     \<Rightarrow> 'd session" where
  "stored_session sd st tid fid tb now m =
     \<lparr>session_id = sessionIdOf tid fid, tabId = tid, frameId = fid,
      title = title_or (sd_title sd) (tab_title tb), url = tab_url tb,
      favIconUrl = tab_favIconUrl tb, artworkUrl = sd_artworkUrl sd, state = st,
      lastActiveAt =
        (case map_of (sessions m) (sessionIdOf tid fid) of
           None \<Rightarrow> now
         | Some p \<Rightarrow> if paused (state p) \<and> \<not> paused st then now else lastActiveAt p)\<rparr>"

text \<open>\<^verbatim>\<open>findMostRecentActiveSession\<close>: the loop over \<^verbatim>\<open>this.sessions.values()\<close>.\<close>

fun mostRecentLoop :: "'d session list \<Rightarrow> string option \<Rightarrow> int \<Rightarrow> string option" where
  "mostRecentLoop [] mostRecent mostRecentTime = mostRecent"
| "mostRecentLoop (s # ss) mostRecent mostRecentTime =
     (if lastActiveAt s > mostRecentTime
      then mostRecentLoop ss (Some (session_id s)) (lastActiveAt s)
      else mostRecentLoop ss mostRecent mostRecentTime)"

definition findMostRecentActiveSession :: "'d manager \<Rightarrow> string option" where
  "findMostRecentActiveSession m = mostRecentLoop (map snd (sessions m)) None 0"

definition removeSession :: "string \<Rightarrow> 'd manager \<Rightarrow> 'd manager" where
  "removeSession sessionId m =
    (let (found, rest) = map_delete sessionId (sessions m);
         m1 = m\<lparr>sessions := rest\<rparr>
     in if found
        then (let m2 = (if lastActiveSessionId m1 = Some sessionId
                        then m1\<lparr>lastActiveSessionId := findMostRecentActiveSession m1\<rparr>
                        else m1)
              in broadcastToPopups (SESSION_REMOVED sessionId) m2)
        else m1)"

definition new_manager :: "'d manager" where
  "new_manager = \<lparr>sessions = [], lastActiveSessionId = None,
                   lastBroadcastTimestamps = Map.empty, broadcasts = []\<rparr>"

section \<open>The agent: \<^verbatim>\<open>MediaAgent\<close> of mediaAgent.js\<close>

subsection \<open>Parsing the time text of the page\<close>

text \<open>
  JavaScript strings are modelled as byte strings.  \<^verbatim>\<open>\d\<close> matches the ten ASCII digits
  only, and \<^verbatim>\<open>trim\<close> removes white space at both ends (here: the ASCII white space; every
  other white space character is removed by the \<^verbatim>\<open>replace\<close> that follows \<^verbatim>\<open>trim\<close> in
  \<^verbatim>\<open>parseTimeString\<close>).
\<close>

definition is_digit :: "char \<Rightarrow> bool" where
  "is_digit c = (c \<in> set ''0123456789'')"

definition is_space :: "char \<Rightarrow> bool" where
  "is_space c = (c \<in> {CHR '' '', CHR 0x09, CHR 0x0A, CHR 0x0B, CHR 0x0C, CHR 0x0D})"

definition trim :: "string \<Rightarrow> string" where
  "trim s = rev (dropWhile is_space (rev (dropWhile is_space s)))"

text \<open>\<^verbatim>\<open>split(':')\<close>; \<open>cur\<close> holds the current field, reversed.\<close>

fun split_colon :: "string \<Rightarrow> string \<Rightarrow> string list" where
  "split_colon cur [] = [rev cur]"
| "split_colon cur (c # cs) =
     (if c = CHR '':'' then rev cur # split_colon [] cs else split_colon (c # cur) cs)"

definition digit_value :: "char \<Rightarrow> nat" where
  "digit_value c = length (takeWhile (\<lambda>d. d \<noteq> c) ''0123456789'')"

text \<open>
  \<^verbatim>\<open>parseInt(s, 10)\<close>: leading white space and one sign are skipped, the longest run of
  digits is read, and \<open>None\<close> is NaN (no digit).  The value is the exact integer; JavaScript
  rounds it to a double beyond \<open>2^53\<close>.
\<close>

definition parseInt :: "string \<Rightarrow> int option" where
  "parseInt s =
     (let t = dropWhile is_space s;
          (neg, u) = (case t of
                        c # r \<Rightarrow> if c = CHR ''-'' then (True, r)
                                 else if c = CHR ''+'' then (False, r) else (False, t)
                      | [] \<Rightarrow> (False, t));
          ds = takeWhile is_digit u;
          n = int (foldl (\<lambda>acc c. 10 * acc + digit_value c) 0 ds)
      in if ds = [] then None else Some (if neg then - n else n))"

text \<open>\<^verbatim>\<open>parseInt(s, 10) || 0\<close>: NaN and 0 are falsy.\<close>

definition parseInt_or_0 :: "string \<Rightarrow> int" where
  "parseInt_or_0 s = (case parseInt s of None \<Rightarrow> 0 | Some n \<Rightarrow> n)"

text \<open>
  \<^verbatim>\<open>parseTimeString\<close>.  The argument is the \<^verbatim>\<open>textContent\<close> of an element: a string, or
  \<^verbatim>\<open>null\<close> (\<open>None\<close>).
\<close>

definition parseTimeString :: "string option \<Rightarrow> int" where
  "parseTimeString timeStr =
     (case timeStr of
        None \<Rightarrow> 0
      | Some str \<Rightarrow>
          if str = [] then 0
          else
            (let cleanStr = filter (\<lambda>c. is_digit c \<or> c = CHR '':'') (trim str);
                 parts = split_colon [] cleanStr
             in if length parts = 2 then
                  (let minutes = parseInt_or_0 (parts ! 0);
                       seconds = parseInt_or_0 (parts ! 1)
                   in minutes * 60 + seconds)
                else if length parts = 3 then
                  (let hours = parseInt_or_0 (parts ! 0);
                       minutes = parseInt_or_0 (parts ! 1);
                       seconds = parseInt_or_0 (parts ! 2)
                   in hours * 3600 + minutes * 60 + seconds)
                else 0))"

subsection \<open>Scoring and discovery\<close>

text \<open>
  The \<^verbatim>\<open>duration\<close> of a media element: NaN before the metadata is known, infinite for
  an unbounded stream, a number of seconds otherwise.
\<close>

datatype js_duration = NaN | Infinity | Seconds real

text \<open>The properties of a \<^verbatim>\<open>video\<close> or \<^verbatim>\<open>audio\<close> element that the agent reads.\<close>

record media_element =
  disableRemotePlayback :: bool
  readyState :: nat
  el_paused :: bool
  el_currentTime :: real
  el_duration :: js_duration
  offsetWidth :: int
  offsetHeight :: int
  tagName :: string
  el_muted :: bool
  el_volume :: real
  src :: string
  childrenLength :: nat
  seekableLength :: nat
  el_ended :: bool

definition scoreMediaElement :: "media_element \<Rightarrow> real" where
  "scoreMediaElement element =
     (if disableRemotePlayback element then - 1
      else
        (if readyState element = 0 then - 10 else 0)
        + (if \<not> el_paused element then 100 else 0)
        + (if el_currentTime element > 0 then 50 else 0)
        + (case el_duration element of
             NaN \<Rightarrow> 0
           | Infinity \<Rightarrow> 30
           | Seconds d \<Rightarrow> if d \<noteq> 0 then min (d / 60) 30 else 0)
        + (if offsetWidth element > 0 \<and> offsetHeight element > 0 then 20 else 0)
        + (if tagName element = ''VIDEO'' then 10 else 0)
        + (if \<not> el_muted element then 10 else 0)
        + (if src element \<noteq> [] \<or> childrenLength element > 0 then 5 else 0))"

text \<open>
  What the agent reads from its page.  Elements are DOM nodes, named by a number;
  \<open>node\<close> gives the current properties of each and \<open>mediaElements\<close> is the result of
  \<^verbatim>\<open>document.querySelectorAll('video, audio')\<close>, in document order.  \<open>metadata\<close> is the
  title and the artwork sources of \<^verbatim>\<open>navigator.mediaSession.metadata\<close>, when the page has
  set it.  The Spotify fields are the texts and buttons that \<^verbatim>\<open>sendSpotifyUpdate\<close> looks up
  (\<open>None\<close>: no element found, or an empty text).
\<close>

record page =
  node :: "nat \<Rightarrow> media_element"
  mediaElements :: "nat list"
  isSpotifyHost :: bool
  documentTitle :: string
  metadata :: "(string \<times> string list) option"
  spotifyTrackName :: "string option"
  spotifyArtistName :: "string option"
  spotifyPauseButton :: bool

text \<open>The loop of \<^verbatim>\<open>findAndAttachMedia\<close> over the candidates.\<close>

fun bestLoop :: "page \<Rightarrow> nat list \<Rightarrow> nat option \<Rightarrow> real \<Rightarrow> nat option \<times> real" where
  "bestLoop pg [] bestElement bestScore = (bestElement, bestScore)"
| "bestLoop pg (element # rest) bestElement bestScore =
     (let score = scoreMediaElement (node pg element)
      in if score > bestScore then bestLoop pg rest (Some element) score
         else bestLoop pg rest bestElement bestScore)"

subsection \<open>Handles, listeners and updates\<close>

text \<open>
  The virtual element made for Spotify, with the shadow fields that its accessors read
  (\<open>None\<close>: not yet assigned).
\<close>

record virtual_element =
  v_paused :: bool
  v_duration :: real
  v_currentTime :: "real option"
  v_volume :: "real option"
  v_muted :: "bool option"

datatype handle = Native nat | Virtual virtual_element

datatype callback = HandleMediaEvent | HandleTimeUpdate

text \<open>
  \<^verbatim>\<open>this.handleMediaEvent.bind(this)\<close> makes a new function object at every evaluation:
  a bound function is the callback together with the identity of that object.  A listener
  is registered on an element for an event type.
\<close>

type_synonym bound_function = "nat \<times> callback"
type_synonym listener = "nat \<times> string \<times> bound_function"

text \<open>
  The agent's fields, and with them what the agent has registered in its page: the event
  listeners of the media elements, the count of function objects made so far, the pending
  retry timers, the Spotify polling intervals started, and the \<^verbatim>\<open>SESSION_UPDATE\<close> messages
  sent, oldest first.  \<open>updateThrottle\<close> is \<open>True\<close> while the field holds a pending 250 ms
  timer.
\<close>

record agent =
  mediaElement :: "handle option"
  updateThrottle :: bool
  retryCount :: nat
  isVirtual :: bool
  seekInProgress :: bool
  listeners :: "listener list"
  functionsMade :: nat
  retryTimers :: nat
  spotifyIntervals :: nat
  sent :: "js_duration session_data list"

definition bind :: "callback \<Rightarrow> agent \<Rightarrow> bound_function \<times> agent" where
  "bind m a = ((functionsMade a, m), a\<lparr>functionsMade := functionsMade a + 1\<rparr>)"

text \<open>The DOM adds a listener unless the same function is registered already.\<close>

definition addEventListener :: "nat \<Rightarrow> string \<Rightarrow> bound_function \<Rightarrow> listener list \<Rightarrow> listener list"
  where
  "addEventListener el ev f ls = (if (el, ev, f) \<in> set ls then ls else ls @ [(el, ev, f)])"

definition removeEventListener ::
  "nat \<Rightarrow> string \<Rightarrow> bound_function \<Rightarrow> listener list \<Rightarrow> listener list" where
  "removeEventListener el ev f ls = filter (\<lambda>l. l \<noteq> (el, ev, f)) ls"

text \<open>\<^verbatim>\<open>element.addEventListener(ev, this.m.bind(this))\<close> and its counterpart.\<close>

definition addBound :: "nat \<Rightarrow> agent \<Rightarrow> string \<times> callback \<Rightarrow> agent" where
  "addBound el a evm =
     (let (f, a1) = bind (snd evm) a
      in a1\<lparr>listeners := addEventListener el (fst evm) f (listeners a1)\<rparr>)"

definition removeBound :: "nat \<Rightarrow> agent \<Rightarrow> string \<times> callback \<Rightarrow> agent" where
  "removeBound el a evm =
     (let (f, a1) = bind (snd evm) a
      in a1\<lparr>listeners := removeEventListener el (fst evm) f (listeners a1)\<rparr>)"

text \<open>\<^verbatim>\<open>x || d\<close> on a number: 0 is falsy (and so is NaN, for a duration).\<close>

definition num_or :: "real \<Rightarrow> real \<Rightarrow> real" where
  "num_or x d = (if x = 0 then d else x)"

definition duration_or_0 :: "js_duration \<Rightarrow> js_duration" where
  "duration_or_0 d = (case d of NaN \<Rightarrow> Seconds 0 | Infinity \<Rightarrow> Infinity | Seconds x \<Rightarrow> Seconds x)"

definition send :: "js_duration session_data \<Rightarrow> agent \<Rightarrow> agent" where
  "send sessionData a = a\<lparr>sent := sent a @ [sessionData]\<rparr>"

definition sendSpotifyUpdate :: "page \<Rightarrow> agent \<Rightarrow> agent" where
  "sendSpotifyUpdate pg a =
     (let trackName = (case spotifyTrackName pg of Some t \<Rightarrow> t | None \<Rightarrow> ''Unknown Track'');
          artistName = (case spotifyArtistName pg of Some t \<Rightarrow> t | None \<Rightarrow> ''Unknown Artist'');
          isPlaying = spotifyPauseButton pg;
          (currentTime0, duration0, volume0, muted0) =
            (case mediaElement a of
               Some (Virtual v) \<Rightarrow>
                 (num_or (case v_currentTime v of None \<Rightarrow> 0 | Some t \<Rightarrow> t) 0,
                  num_or (v_duration v) 0,
                  num_or (case v_volume v of None \<Rightarrow> 0 | Some x \<Rightarrow> x) 1,
                  (case v_muted v of None \<Rightarrow> False | Some b \<Rightarrow> b))
             | _ \<Rightarrow> (0, 0, 1, False));
          sessionData =
            \<lparr>sd_title = Some (trackName @ '' - '' @ artistName), sd_artworkUrl = None,
             sd_state = Some \<lparr>paused = \<not> isPlaying, muted = muted0, volume = volume0,
                               currentTime = currentTime0, duration = Seconds duration0,
                               canSeek = (duration0 > 0), ended = False\<rparr>\<rparr>
      in if seekInProgress a then a else send sessionData a)"

text \<open>
  \<^verbatim>\<open>sendUpdate\<close>.  The agent sets \<open>isVirtual\<close> before it attaches the virtual element and
  never attaches another element afterwards, so the generic branch is reached with a native
  element only; for a virtual one the model sends nothing there.
\<close>

definition sendUpdate :: "page \<Rightarrow> agent \<Rightarrow> agent" where
  "sendUpdate pg a =
     (case mediaElement a of
        None \<Rightarrow> a
      | Some h \<Rightarrow>
          if seekInProgress a then a
          else if isVirtual a then sendSpotifyUpdate pg a
          else
            (case h of
               Virtual v \<Rightarrow> a
             | Native el \<Rightarrow>
                 (let element = node pg el;
                      st = \<lparr>paused = el_paused element, muted = el_muted element,
                            volume = el_volume element,
                            currentTime = num_or (el_currentTime element) 0,
                            duration = duration_or_0 (el_duration element),
                            canSeek = (seekableLength element > 0),
                            ended = el_ended element\<rparr>;
                      title0 = documentTitle pg;
                      title1 = (case metadata pg of
                                  None \<Rightarrow> title0
                                | Some md \<Rightarrow> title_or (Some (fst md)) title0);
                      artworkUrl0 = (case metadata pg of
                                       None \<Rightarrow> None
                                     | Some md \<Rightarrow>
                                         (case snd md of [] \<Rightarrow> None | x # _ \<Rightarrow> Some x))
                  in send \<lparr>sd_title = Some title1, sd_artworkUrl = artworkUrl0,
                            sd_state = Some st\<rparr> a)))"

text \<open>
  \<^verbatim>\<open>detachFromElement\<close>: two \<^verbatim>\<open>removeEventListener\<close> calls for a native element, each
  with a function bound on the spot, and \<^verbatim>\<open>clearTimeout\<close> of the pending throttle timer.
\<close>

definition detachFromElement :: "agent \<Rightarrow> agent" where
  "detachFromElement a =
     (let a1 = (case mediaElement a of
                  Some (Native el) \<Rightarrow>
                    foldl (removeBound el) a
                      [(''play'', HandleMediaEvent), (''pause'', HandleMediaEvent)]
                | _ \<Rightarrow> a);
          a2 = a1\<lparr>mediaElement := None\<rparr>
      in if updateThrottle a2 then a2\<lparr>updateThrottle := False\<rparr> else a2)"

definition attachToElement :: "handle \<Rightarrow> page \<Rightarrow> agent \<Rightarrow> agent" where
  "attachToElement element pg a =
     (let a1 = detachFromElement a;
          a2 = a1\<lparr>mediaElement := Some element\<rparr>;
          a3 = (case element of
                  Native el \<Rightarrow>
                    foldl (addBound el) a2
                      [(''play'', HandleMediaEvent), (''pause'', HandleMediaEvent),
                       (''timeupdate'', HandleTimeUpdate),
                       (''durationchange'', HandleMediaEvent),
                       (''volumechange'', HandleMediaEvent), (''seeked'', HandleMediaEvent),
                       (''emptied'', HandleMediaEvent), (''ended'', HandleMediaEvent)]
                | Virtual v \<Rightarrow> a2)
      in sendUpdate pg a3)"

definition handleMediaEvent :: "page \<Rightarrow> agent \<Rightarrow> agent" where
  "handleMediaEvent pg a = (if \<not> isVirtual a then sendUpdate pg a else a)"

definition handleTimeUpdate :: "agent \<Rightarrow> agent" where
  "handleTimeUpdate a = (if updateThrottle a \<or> isVirtual a then a else a\<lparr>updateThrottle := True\<rparr>)"

text \<open>The callback of the throttle timer, when the timer is still pending at its time.\<close>

definition throttleTimerFires :: "page \<Rightarrow> agent \<Rightarrow> agent" where
  "throttleTimerFires pg a =
     (if updateThrottle a then (sendUpdate pg a)\<lparr>updateThrottle := False\<rparr> else a)"

text \<open>
  The page dispatches an event of type \<open>ev\<close> on element \<open>el\<close>: every listener registered
  for it at that moment is called, in the order of registration.
\<close>

definition call :: "page \<Rightarrow> agent \<Rightarrow> listener \<Rightarrow> agent" where
  "call pg a l = (case snd (snd (snd l)) of
                    HandleMediaEvent \<Rightarrow> handleMediaEvent pg a
                  | HandleTimeUpdate \<Rightarrow> handleTimeUpdate a)"

definition dispatchEvent :: "nat \<Rightarrow> string \<Rightarrow> page \<Rightarrow> agent \<Rightarrow> agent" where
  "dispatchEvent el ev pg a =
     foldl (call pg) a (filter (\<lambda>l. fst l = el \<and> fst (snd l) = ev) (listeners a))"

definition createSpotifyVirtualElement :: "page \<Rightarrow> agent \<Rightarrow> agent" where
  "createSpotifyVirtualElement pg a =
     (let virtualElement = \<lparr>v_paused = True, v_duration = 0, v_currentTime = None,
                             v_volume = None, v_muted = None\<rparr>;
          a1 = a\<lparr>isVirtual := True\<rparr>;
          a2 = attachToElement (Virtual virtualElement) pg a1
      in a2\<lparr>spotifyIntervals := spotifyIntervals a2 + 1\<rparr>)"

text \<open>
  \<^verbatim>\<open>findAndAttachMedia\<close>, in two parts: the loop with the test
  \<^verbatim>\<open>bestElement && bestScore >= 0\<close>, which yields the element to attach to if there is one,
  and the branches around it.  The retry is a timer that calls \<^verbatim>\<open>findAndAttachMedia\<close> again
  after 2 s, with the page as it is then.
\<close>

definition bestCandidate :: "page \<Rightarrow> nat option" where
  "bestCandidate pg =
     (let (bestElement, bestScore) = bestLoop pg (mediaElements pg) None (- 1)
      in case bestElement of
           Some el \<Rightarrow> if bestScore \<ge> 0 then Some el else None
         | None \<Rightarrow> None)"

definition findAndAttachMedia :: "page \<Rightarrow> agent \<Rightarrow> agent" where
  "findAndAttachMedia pg a =
     (if mediaElements pg = [] \<and> isSpotifyHost pg then createSpotifyVirtualElement pg a
      else
        (case bestCandidate pg of
           Some el \<Rightarrow> attachToElement (Native el) pg a
         | None \<Rightarrow>
             if retryCount a < 5
             then a\<lparr>retryCount := retryCount a + 1, retryTimers := retryTimers a + 1\<rparr>
             else a))"

definition new_agent :: agent where
  "new_agent = \<lparr>mediaElement = None, updateThrottle = False, retryCount = 0, isVirtual = False,
                 seekInProgress = False, listeners = [], functionsMade = 0, retryTimers = 0,
                 spotifyIntervals = 0, sent = []\<rparr>"

section \<open>The control surface: \<^verbatim>\<open>MediaControllerPopup\<close> of popup.js\<close>

text \<open>
  The popup handles session objects by reference: the object of a received message is put
  into \<^verbatim>\<open>this.sessions\<close>, the listeners of a card close over the object the card was made
  from, and \<^verbatim>\<open>handleToggle\<close> assigns to a field of that object.  So the model has a store
  of session objects, named by numbers; every session of a received message is a new object.
  Card elements are objects too: the drag handlers that \<^verbatim>\<open>startDrag\<close> registers on the
  document refer to their card whether or not it is still a child of the list.
  Durations are finite here (reals), 0 for an unknown one.
\<close>

record opt_state =
  opt_paused :: bool
  opt_timestamp :: int

text \<open>The \<^verbatim>\<open>cmd\<close> of a \<^verbatim>\<open>CONTROL_COMMAND\<close> with its parameters; a command names its session.\<close>

datatype control =
    Toggle | Mute | Seek real | SetVolume real | SetTime real
  | NextTrack | PreviousTrack | BeginSeek | EndSeek

type_synonym command = "string \<times> control"

text \<open>
  What a session card shows, as far as \<^verbatim>\<open>updateSessionCardDOM\<close> and the drag handlers write
  it: title and artist, the play/pause button (\<open>showsPlayIcon\<close>: the play icon, shown when
  paused), the volume slider and whether it has the focus, the mute icon, and the progress
  bar: its \<^verbatim>\<open>dragging\<close> class, the width of the fill and the position of the handle in
  percent, and the two time texts.  The site name, the icon and the artwork are left out,
  and so is the rounding of an assigned volume to the slider's step.
  \<open>captured\<close> is the session object the card's listeners close over.
\<close>

record card =
  titleText :: string
  artistText :: string
  showsPlayIcon :: bool
  volumeSlider :: real
  volumeFocused :: bool
  muteIconMuted :: bool
  dragging :: bool
  fillWidth :: real
  handleLeft :: real
  currentTimeText :: string
  durationText :: string
  captured :: nat

text \<open>
  The popup: the session objects and \<^verbatim>\<open>this.sessions\<close>; the optimistic states; the card
  elements made so far and \<open>cards\<close>, the children of the list element in order, each with
  its \<^verbatim>\<open>data-session-id\<close>; \<open>dragClosures\<close>, the pairs of \<^verbatim>\<open>onMove\<close>/\<^verbatim>\<open>onEnd\<close> closures
  registered on the document, in the order of registration, each named by the card element
  it belongs to; the port and the commands posted to it, oldest first.
\<close>

record popup =
  objects :: "nat \<Rightarrow> real session"
  objectsMade :: nat
  p_sessions :: "(string \<times> nat) list"
  optimisticStates :: "string \<rightharpoonup> opt_state"
  cardElements :: "nat \<Rightarrow> card"
  cardsMade :: nat
  cards :: "(string \<times> nat) list"
  dragClosures :: "nat list"
  port :: bool
  posted :: "command list"

text \<open>
  \<^verbatim>\<open>title.split(' - ')\<close> up to the first separator: the text before it and the text after
  it, which is what \<^verbatim>\<open>parts[0]\<close> and \<^verbatim>\<open>parts.slice(1).join(' - ')\<close> are.
\<close>

fun split_first :: "string \<Rightarrow> string \<Rightarrow> (string \<times> string) option" where
  "split_first acc [] = None"
| "split_first acc (c # cs) =
     (if take 3 (c # cs) = '' - '' then Some (rev acc, drop 3 (c # cs))
      else split_first (c # acc) cs)"

definition parseMetadata :: "string \<Rightarrow> string \<times> string" where
  "parseMetadata t =
     (if t = [] then (''Unknown Title'', ''Unknown Artist'')
      else case split_first [] t of
             Some parts \<Rightarrow> parts
           | None \<Rightarrow> (t, []))"

text \<open>
  \<^verbatim>\<open>formatTime\<close>.  The remainder \<^verbatim>\<open>x % y\<close> takes the sign of \<open>x\<close>; minutes and seconds
  are integers and are written in decimal notation.
\<close>

definition js_rem :: "real \<Rightarrow> real \<Rightarrow> real" where
  "js_rem x y = x - y * of_int (if x / y \<ge> 0 then \<lfloor>x / y\<rfloor> else \<lceil>x / y\<rceil>)"

definition padStart2 :: "string \<Rightarrow> string" where
  "padStart2 t = replicate (2 - length t) CHR ''0'' @ t"

definition formatTime :: "real \<Rightarrow> string" where
  "formatTime seconds =
     (if seconds = 0 then ''0:00''
      else (let m = \<lfloor>seconds / 60\<rfloor>;
                s = \<lfloor>js_rem seconds 60\<rfloor>
            in show_int m @ '':'' @ padStart2 (show_int s)))"

definition updateProgressBarVisuals :: "card \<Rightarrow> real playback_state \<Rightarrow> card" where
  "updateProgressBarVisuals c st =
     (if duration st = 0 then c\<lparr>fillWidth := 0, handleLeft := 0\<rparr>
      else (let pct = (currentTime st / duration st) * 100
            in c\<lparr>fillWidth := pct, handleLeft := pct,
                 currentTimeText := formatTime (currentTime st),
                 durationText := formatTime (duration st)\<rparr>))"

definition updateSessionCardDOM :: "card \<Rightarrow> real session \<Rightarrow> card" where
  "updateSessionCardDOM c session =
     (let (title0, artist0) = parseMetadata (title session);
          c1 = c\<lparr>titleText := title0, artistText := artist0,
                 showsPlayIcon := paused (state session)\<rparr>;
          c2 = (if \<not> volumeFocused c1 then c1\<lparr>volumeSlider := volume (state session)\<rparr> else c1);
          c3 = c2\<lparr>muteIconMuted := muted (state session)\<rparr>
      in if \<not> dragging c3 then updateProgressBarVisuals c3 (state session) else c3)"

text \<open>
  \<^verbatim>\<open>createSessionCard\<close> for the session object \<open>r\<close>: the markup of a new card
  (\<open>new_card\<close>), then \<^verbatim>\<open>updateSessionCardDOM\<close>.
\<close>

definition new_card :: "nat \<Rightarrow> card" where
  "new_card r =
     \<lparr>titleText = [], artistText = [], showsPlayIcon = False, volumeSlider = 1 / 2,
      volumeFocused = False, muteIconMuted = False, dragging = False, fillWidth = 0,
      handleLeft = 0, currentTimeText = ''0:00'', durationText = ''0:00'',
      captured = r\<rparr>"

definition createSessionCard :: "(nat \<Rightarrow> real session) \<Rightarrow> nat \<Rightarrow> card" where
  "createSessionCard objs r = updateSessionCardDOM (new_card r) (objs r)"

text \<open>
  \<^verbatim>\<open>renderSessions\<close>.  Cards of sessions that are gone are removed from the list (the
  elements themselves remain what they are); the sessions are sorted, playing ones first and
  then by \<open>lastActiveAt\<close>, latest first (the sort is stable); each one's card is made and
  appended, or moved to the end and updated.
\<close>

definition playingRank :: "real session \<Rightarrow> nat" where
  "playingRank s = (if \<not> paused (state s) then 0 else 1)"

definition renderOne :: "popup \<Rightarrow> nat \<Rightarrow> popup" where
  "renderOne p r =
     (let session = objects p r
      in case map_of (cards p) (session_id session) of
           None \<Rightarrow>
             p\<lparr>cardElements := (cardElements p)(cardsMade p := createSessionCard (objects p) r),
               cardsMade := cardsMade p + 1,
               cards := cards p @ [(session_id session, cardsMade p)]\<rparr>
         | Some cr \<Rightarrow>
             p\<lparr>cardElements :=
                 (cardElements p)(cr := updateSessionCardDOM (cardElements p cr) session),
               cards := AList.delete (session_id session) (cards p)
                          @ [(session_id session, cr)]\<rparr>)"

definition renderSessions :: "nat list \<Rightarrow> popup \<Rightarrow> popup" where
  "renderSessions rs p =
     (let newIds = set (map (\<lambda>r. session_id (objects p r)) rs);
          kept = filter (\<lambda>kc. fst kc \<in> newIds) (cards p);
          sorted = sort_key (\<lambda>r. playingRank (objects p r))
                     (sort_key (\<lambda>r. - lastActiveAt (objects p r)) rs)
      in foldl renderOne (p\<lparr>cards := kept\<rparr>) sorted)"

definition updateDisplay :: "popup \<Rightarrow> popup" where
  "updateDisplay p =
     (let sessionsToShow = map snd (p_sessions p)
      in if sessionsToShow = [] then p else renderSessions sessionsToShow p)"

definition updateSessionCard :: "nat \<Rightarrow> popup \<Rightarrow> popup" where
  "updateSessionCard r p =
     (let session = objects p r
      in case map_of (cards p) (session_id session) of
           Some cr \<Rightarrow>
             p\<lparr>cardElements :=
                 (cardElements p)(cr := updateSessionCardDOM (cardElements p cr) session)\<rparr>
         | None \<Rightarrow> p)"

text \<open>The session of a received message becomes a new object.\<close>

definition receive :: "real session \<Rightarrow> popup \<Rightarrow> nat \<times> popup" where
  "receive s p =
     (objectsMade p, p\<lparr>objects := (objects p)(objectsMade p := s),
                        objectsMade := objectsMade p + 1\<rparr>)"

definition setSession :: "popup \<Rightarrow> real session \<Rightarrow> popup" where
  "setSession p s =
     (let (r, p1) = receive s p
      in p1\<lparr>p_sessions := AList.update (session_id s) r (p_sessions p1)\<rparr>)"

text \<open>
  \<^verbatim>\<open>handleBackgroundMessage\<close>; \<open>now\<close> is the \<^verbatim>\<open>Date.now()\<close> it reads.  For
  \<^verbatim>\<open>SESSION_REMOVED\<close> the two maps are updated and the call of \<^verbatim>\<open>this.removeSessionCard\<close>,
  a method this class does not have, throws: the display is not updated.
\<close>

definition handleBackgroundMessage :: "real message \<Rightarrow> int \<Rightarrow> popup \<Rightarrow> popup" where
  "handleBackgroundMessage msg now p =
     (case msg of
        SESSIONS_INIT ss \<Rightarrow> updateDisplay (foldl setSession (p\<lparr>p_sessions := []\<rparr>) ss)
      | SESSION_UPDATED s \<Rightarrow>
          (let optState = optimisticStates p (session_id s);
               recent = (case optState of
                           Some os \<Rightarrow> now - opt_timestamp os < 1000
                         | None \<Rightarrow> False);
               s1 = (case optState of
                       Some os \<Rightarrow>
                         if recent then s\<lparr>state := (state s)\<lparr>paused := opt_paused os\<rparr>\<rparr> else s
                     | None \<Rightarrow> s);
               p1 = (if recent then p
                     else p\<lparr>optimisticStates := (optimisticStates p)(session_id s := None)\<rparr>);
               (r, p2) = receive s1 p1;
               p3 = p2\<lparr>p_sessions := AList.update (session_id s1) r (p_sessions p2)\<rparr>
           in updateDisplay (updateSessionCard r p3))
      | SESSION_REMOVED sessionId \<Rightarrow>
          p\<lparr>p_sessions := AList.delete sessionId (p_sessions p),
            optimisticStates := (optimisticStates p)(sessionId := None)\<rparr>)"

definition sendControlCommand :: "string \<Rightarrow> control \<Rightarrow> popup \<Rightarrow> popup" where
  "sendControlCommand sessionId c p =
     (if port p then p\<lparr>posted := posted p @ [(sessionId, c)]\<rparr> else p)"

text \<open>
  \<^verbatim>\<open>handleToggle\<close>, called by the click listener of the card shown for \<open>k\<close> with the
  session object the card was made from.
\<close>

definition handleToggle :: "string \<Rightarrow> int \<Rightarrow> popup \<Rightarrow> popup" where
  "handleToggle k now p =
     (case map_of (cards p) k of
        None \<Rightarrow> p
      | Some cr \<Rightarrow>
          (let c = cardElements p cr;
               r = captured c;
               session0 = objects p r;
               newPausedState = (\<not> paused (state session0));
               session = session0\<lparr>state := (state session0)\<lparr>paused := newPausedState\<rparr>\<rparr>;
               p1 = p\<lparr>objects := (objects p)(r := session),
                     optimisticStates := (optimisticStates p)(session_id session \<mapsto>
                        \<lparr>opt_paused = newPausedState, opt_timestamp = now\<rparr>)\<rparr>;
               p2 = p1\<lparr>cardElements :=
                        (cardElements p1)(cr := updateSessionCardDOM c session)\<rparr>
           in sendControlCommand (session_id session) Toggle p2))"

text \<open>
  The events that reach the drag handlers: a mouse event with its \<^verbatim>\<open>clientX\<close>, or a touch
  event, which has no \<^verbatim>\<open>clientX\<close> and whose first touch has one.  The handlers read
  \<^verbatim>\<open>moveEvent.clientX || (moveEvent.touches && moveEvent.touches[0].clientX)\<close>: for a mouse
  event at \<^verbatim>\<open>clientX\<close> 0 the result is \<^verbatim>\<open>undefined\<close> (\<open>None\<close>).
\<close>

datatype pointer_event = MouseAt real | TouchAt real

definition clientXOf :: "pointer_event \<Rightarrow> real option" where
  "clientXOf ev = (case ev of
                     MouseAt x \<Rightarrow> if x = 0 then None else Some x
                   | TouchAt x \<Rightarrow> Some x)"

text \<open>
  \<^verbatim>\<open>onMove\<close> of a card's drag closure; \<open>left\<close> and \<open>width\<close> are those of the bar's
  bounding rectangle.  Without a pointer position, or with a bar of width 0, \<^verbatim>\<open>pct\<close> is
  NaN: the two style assignments are invalid and leave the fill and the handle as they are,
  and \<^verbatim>\<open>formatTime\<close> of NaN is \<^verbatim>\<open>0:00\<close>.
\<close>

definition onMove :: "real session \<Rightarrow> pointer_event \<Rightarrow> real \<Rightarrow> real \<Rightarrow> card \<Rightarrow> card" where
  "onMove session ev left width c =
     (case clientXOf ev of
        None \<Rightarrow> c\<lparr>currentTimeText := ''0:00''\<rparr>
      | Some clientX \<Rightarrow>
          if width = 0 then c\<lparr>currentTimeText := ''0:00''\<rparr>
          else
            (let x = max 0 (min (clientX - left) width);
                 pct = x / width;
                 time = pct * duration (state session)
             in c\<lparr>fillWidth := pct * 100, handleLeft := pct * 100,
                  currentTimeText := formatTime time\<rparr>))"

text \<open>
  \<^verbatim>\<open>startDrag\<close>, the \<^verbatim>\<open>mousedown\<close> and \<^verbatim>\<open>touchstart\<close> listener of the progress bar of
  the card element \<open>cr\<close>.  Every call makes a new pair of closures and registers it on the
  document; \<^verbatim>\<open>isDragging\<close> is assigned and never read.
\<close>

definition startDrag :: "nat \<Rightarrow> pointer_event \<Rightarrow> real \<Rightarrow> real \<Rightarrow> popup \<Rightarrow> popup" where
  "startDrag cr ev left width p =
     (let c = cardElements p cr;
          session = objects p (captured c)
      in if duration (state session) = 0 then p
         else
           (let c1 = c\<lparr>dragging := True\<rparr>;
                p1 = sendControlCommand (session_id session) BeginSeek p;
                p2 = p1\<lparr>dragClosures := dragClosures p1 @ [cr]\<rparr>;
                c2 = onMove session ev left width c1
            in p2\<lparr>cardElements := (cardElements p2)(cr := c2)\<rparr>))"

text \<open>One \<^verbatim>\<open>onEnd\<close> closure of the card element \<open>cr\<close> runs; it removes its own pair.\<close>

definition onEnd :: "popup \<Rightarrow> nat \<Rightarrow> popup" where
  "onEnd p cr =
     (let c = cardElements p cr;
          session = objects p (captured c);
          c1 = c\<lparr>dragging := False\<rparr>;
          p1 = p\<lparr>cardElements := (cardElements p)(cr := c1),
                dragClosures := remove1 cr (dragClosures p)\<rparr>;
          pct = fillWidth c1 / 100;
          finalTime = pct * duration (state session);
          p2 = sendControlCommand (session_id session) (SetTime finalTime) p1
      in sendControlCommand (session_id session) EndSeek p2)"

text \<open>
  The document receives \<^verbatim>\<open>mousemove\<close> or \<^verbatim>\<open>touchmove\<close>, and \<^verbatim>\<open>mouseup\<close> or
  \<^verbatim>\<open>touchend\<close>: every closure registered at that moment runs, whichever card it belongs
  to, in the order of registration.  \<open>rect\<close> gives \<open>left\<close> and \<open>width\<close> of the bar of each
  card element.
\<close>

definition moveOne :: "pointer_event \<Rightarrow> (nat \<Rightarrow> real \<times> real) \<Rightarrow> popup \<Rightarrow> nat \<Rightarrow> popup" where
  "moveOne ev rect p cr =
     (let c = cardElements p cr
      in p\<lparr>cardElements := (cardElements p)
             (cr := onMove (objects p (captured c)) ev (fst (rect cr)) (snd (rect cr)) c)\<rparr>)"

definition documentMove :: "pointer_event \<Rightarrow> (nat \<Rightarrow> real \<times> real) \<Rightarrow> popup \<Rightarrow> popup" where
  "documentMove ev rect p = foldl (moveOne ev rect) p (dragClosures p)"

definition documentEnd :: "popup \<Rightarrow> popup" where
  "documentEnd p = foldl onEnd p (dragClosures p)"



text \<open>The rendered progress position of a card: fill, handle and the two time texts.\<close>

definition progressShown :: "card \<Rightarrow> real \<times> real \<times> string \<times> string" where
  "progressShown c = (fillWidth c, handleLeft c, currentTimeText c, durationText c)"

text \<open>
  Two notions for the proofs: a card \<open>c'\<close> that is still being dragged and shows the
  progress of \<open>c\<close>; and the popup after the first half of the \<^verbatim>\<open>SESSION_UPDATED\<close> branch
  (the reconciliation with the optimistic state and \<^verbatim>\<open>sessions.set\<close>).
\<close>

definition held :: "card \<Rightarrow> card \<Rightarrow> bool" where
  "held c c' = (dragging c' \<and> progressShown c' = progressShown c \<and> captured c' = captured c)"

definition reconciled :: "real session \<Rightarrow> int \<Rightarrow> popup \<Rightarrow> popup" where
  "reconciled s now p =
     (let optState = optimisticStates p (session_id s);
          recent = (case optState of
                      Some os \<Rightarrow> now - opt_timestamp os < 1000
                    | None \<Rightarrow> False);
          s1 = (case optState of
                  Some os \<Rightarrow>
                    if recent then s\<lparr>state := (state s)\<lparr>paused := opt_paused os\<rparr>\<rparr> else s
                | None \<Rightarrow> s);
          p1 = (if recent then p
                else p\<lparr>optimisticStates := (optimisticStates p)(session_id s := None)\<rparr>);
          p2 = snd (receive s1 p1)
      in p2\<lparr>p_sessions := AList.update (session_id s1) (objectsMade p) (p_sessions p2)\<rparr>)"

section \<open>Concrete inputs\<close>

definition example_tab :: tab where
  "example_tab = \<lparr>tab_title = ''Radio'', tab_url = ''https://example.org/'',
                    tab_favIconUrl = None\<rparr>"

text \<open>A snapshot as the agent sends it: \<open>p\<close> is paused, \<open>t\<close> the position, \<open>d\<close> the duration.\<close>

definition snapshot :: "bool \<Rightarrow> real \<Rightarrow> real \<Rightarrow> real session_data" where
  "snapshot p t d = \<lparr>sd_title = None, sd_artworkUrl = None,
     sd_state = Some \<lparr>paused = p, muted = False, volume = 1, currentTime = t, duration = d,
                      canSeek = True, ended = False\<rparr>\<rparr>"

definition one_session :: "real manager" where
  "one_session =
     updateSession (snapshot False 0 200) 7 0 (Some example_tab) 1700000000000 new_manager"

definition two_sessions :: "real manager" where
  "two_sessions =
     updateSession (snapshot False 0 300) 8 0 (Some example_tab) 1700000001000 one_session"

definition three_sessions :: "real manager" where
  "three_sessions =
     updateSession (snapshot False 0 400) 9 0 (Some example_tab) 1700000002000 two_sessions"

text \<open>Session 7:0 again, 100 ms after its first snapshot, and once more 250 ms after that.\<close>

definition after_second :: "real manager" where
  "after_second =
     updateSession (snapshot False 1 200) 7 0 (Some example_tab) 1700000000100 one_session"

definition after_third :: "real manager" where
  "after_third =
     updateSession (snapshot False 2 200) 7 0 (Some example_tab) 1700000000350 after_second"

text \<open>Or the third snapshot comes 300 ms after the second.\<close>

definition after_third_late :: "real manager" where
  "after_third_late =
     updateSession (snapshot False 2 200) 7 0 (Some example_tab) 1700000000400 after_second"

text \<open>Session 7:0 once more, 300 ms after its first snapshot; and paused, 100 ms after it.\<close>

definition second_late :: "real manager" where
  "second_late =
     updateSession (snapshot False 1 200) 7 0 (Some example_tab) 1700000000300 one_session"

definition second_paused :: "real manager" where
  "second_paused =
     updateSession (snapshot True 1 200) 7 0 (Some example_tab) 1700000000100 one_session"

text \<open>With three sessions registered, session 7:0 pauses and then plays again.\<close>

definition paused_7 :: "real manager" where
  "paused_7 =
     updateSession (snapshot True 5 200) 7 0 (Some example_tab) 1700000003000 three_sessions"

definition resumed_7 :: "real manager" where
  "resumed_7 =
     updateSession (snapshot False 5 200) 7 0 (Some example_tab) 1700000004000 paused_7"

text \<open>
  A page with three media elements: a video with remote playback disabled, an audio element
  with nothing loaded, and a playing video.
\<close>

definition disabled_video :: media_element where
  "disabled_video = \<lparr>disableRemotePlayback = True, readyState = 4, el_paused = False,
     el_currentTime = 12, el_duration = Seconds 600, offsetWidth = 640, offsetHeight = 360,
     tagName = ''VIDEO'', el_muted = False, el_volume = 1, src = ''https://example.org/a.mp4'',
     childrenLength = 0, seekableLength = 1, el_ended = False\<rparr>"

definition unready_audio :: media_element where
  "unready_audio = \<lparr>disableRemotePlayback = False, readyState = 0, el_paused = True,
     el_currentTime = 0, el_duration = NaN, offsetWidth = 0, offsetHeight = 0,
     tagName = ''AUDIO'', el_muted = True, el_volume = 1, src = [],
     childrenLength = 0, seekableLength = 0, el_ended = False\<rparr>"

definition playing_video :: media_element where
  "playing_video = \<lparr>disableRemotePlayback = False, readyState = 4, el_paused = False,
     el_currentTime = 30, el_duration = Seconds 240, offsetWidth = 640, offsetHeight = 360,
     tagName = ''VIDEO'', el_muted = False, el_volume = 1, src = ''https://example.org/b.mp4'',
     childrenLength = 0, seekableLength = 1, el_ended = False\<rparr>"

definition example_page :: page where
  "example_page = \<lparr>node = (\<lambda>n. if n = 1 then disabled_video else if n = 2 then unready_audio
                               else playing_video),
     mediaElements = [1, 2, 3], isSpotifyHost = False, documentTitle = ''Videos'',
     metadata = None, spotifyTrackName = None, spotifyArtistName = None,
     spotifyPauseButton = False\<rparr>"

text \<open>The same page later: a fourth element, a second playing video, has been added in front.\<close>

definition later_page :: page where
  "later_page = example_page\<lparr>mediaElements := [4, 1, 2, 3]\<rparr>"

definition unplayable_page :: page where
  "unplayable_page = example_page\<lparr>mediaElements := [1, 2]\<rparr>"

definition first_attach :: agent where
  "first_attach = findAndAttachMedia example_page new_agent"

definition second_attach :: agent where
  "second_attach = findAndAttachMedia later_page first_attach"

text \<open>
  A popup that shows one playing session; its toggle button is clicked; its progress bar is
  dragged to the middle, an update arrives during the drag, and the pointer is released.
  In another run the bar is pressed a second time before the pointer is released.
\<close>

definition radio_session :: "real session" where
  "radio_session = \<lparr>session_id = ''7:0'', tabId = 7, frameId = 0, title = ''Song - Band'',
     url = ''https://example.org/'', favIconUrl = None, artworkUrl = None,
     state = \<lparr>paused = False, muted = False, volume = 1, currentTime = 50, duration = 200,
               canSeek = True, ended = False\<rparr>, lastActiveAt = 1700000000000\<rparr>"

definition radio_later :: "real session" where
  "radio_later = radio_session\<lparr>title := ''Next - Band'',
     state := \<lparr>paused = True, muted = True, volume = 1 / 2, currentTime = 80, duration = 200,
                canSeek = True, ended = False\<rparr>\<rparr>"

definition new_popup :: popup where
  "new_popup = \<lparr>objects = (\<lambda>r. radio_session), objectsMade = 0, p_sessions = [],
                 optimisticStates = Map.empty, cardElements = (\<lambda>cr. new_card 0),
                 cardsMade = 0, cards = [], dragClosures = [], port = True, posted = []\<rparr>"

definition shown :: popup where
  "shown = handleBackgroundMessage (SESSIONS_INIT [radio_session]) 1700000000000 new_popup"

definition dragged :: popup where
  "dragged = startDrag 0 (MouseAt 160) 100 120 shown"

definition updated_while_dragged :: popup where
  "updated_while_dragged =
     handleBackgroundMessage (SESSION_UPDATED radio_later) 1700000001000 dragged"

definition released :: popup where
  "released = documentEnd updated_while_dragged"

definition pressed_again :: popup where
  "pressed_again = startDrag 0 (MouseAt 190) 100 120 dragged"

definition released_after_two :: popup where
  "released_after_two = documentEnd pressed_again"


definition toggled :: popup where
  "toggled = handleToggle ''7:0'' 1700000000500 shown"

section \<open>Properties of the coordinator\<close>

lemma sessionIdOf_examples:
  "sessionIdOf 7 0 = ''7:0''" "sessionIdOf 8 0 = ''8:0''" "sessionIdOf 9 0 = ''9:0''"
  by (simp_all add: sessionIdOf_def show_int_def digits.simps digit_char_def)

lemma set_update_subset: "set (AList.update k v al) \<subseteq> insert (k, v) (set al)"
  by (induction al) auto

lemma updateSession_dropped:
  "updateSession sd tid fid None now m = m"
  "updateSession (sd\<lparr>sd_state := None\<rparr>) tid fid tabResult now m = m"
  by (simp_all add: updateSession_def Let_def split: option.splits)

lemma updateSession_sessions:
  "sessions (updateSession (sd\<lparr>sd_state := Some st\<rparr>) tid fid (Some tb) now m) =
     AList.update (sessionIdOf tid fid) (stored_session sd st tid fid tb now m) (sessions m)"
  by (simp add: updateSession_def stored_session_def Let_def broadcastToPopups_def
      split: option.splits)

lemma updateSession_lookup:
  "map_of (sessions (updateSession (sd\<lparr>sd_state := Some st\<rparr>) tid fid (Some tb) now m)) k =
     (if k = sessionIdOf tid fid then Some (stored_session sd st tid fid tb now m)
      else map_of (sessions m) k)"
  by (simp add: updateSession_sessions update_conv)

lemma updateSession_pointer:
  "lastActiveSessionId (updateSession (sd\<lparr>sd_state := Some st\<rparr>) tid fid (Some tb) now m) =
     (if (case map_of (sessions m) (sessionIdOf tid fid) of
            None \<Rightarrow> \<not> paused st | Some p \<Rightarrow> paused (state p) \<and> \<not> paused st)
      then Some (sessionIdOf tid fid) else lastActiveSessionId m)"
  by (simp add: updateSession_def Let_def broadcastToPopups_def split: option.splits)

lemma updateSession_broadcasts:
  "broadcasts (updateSession (sd\<lparr>sd_state := Some st\<rparr>) tid fid (Some tb) now m) =
     (if (case map_of (sessions m) (sessionIdOf tid fid) of
            None \<Rightarrow> True | Some p \<Rightarrow> paused (state p) \<noteq> paused st)
         \<or> now - (case lastBroadcastTimestamps m (sessionIdOf tid fid) of
                    None \<Rightarrow> 0 | Some t \<Rightarrow> t) \<ge> 300
      then broadcasts m @ [SESSION_UPDATED (stored_session sd st tid fid tb now m)]
      else broadcasts m)"
  by (simp add: updateSession_def stored_session_def Let_def broadcastToPopups_def
      split: option.splits)

lemma updateSession_timestamps:
  "lastBroadcastTimestamps
     (updateSession (sd\<lparr>sd_state := Some st\<rparr>) tid fid (Some tb) now m) k =
     (if k = sessionIdOf tid fid \<and>
         ((case map_of (sessions m) (sessionIdOf tid fid) of
             None \<Rightarrow> True | Some p \<Rightarrow> paused (state p) \<noteq> paused st)
          \<or> now - (case lastBroadcastTimestamps m (sessionIdOf tid fid) of
                     None \<Rightarrow> 0 | Some t \<Rightarrow> t) \<ge> 300)
      then Some now else lastBroadcastTimestamps m k)"
  by (simp add: updateSession_def Let_def broadcastToPopups_def split: option.splits)

lemma snapshot_as_update:
  "snapshot p t d = (snapshot p t d)\<lparr>sd_state := Some \<lparr>paused = p, muted = False, volume = 1,
     currentTime = t, duration = d, canSeek = True, ended = False\<rparr>\<rparr>"
  by (simp add: snapshot_def)

lemma one_session_eq:
  "sessions one_session =
    [(''7:0'', \<lparr>session_id = ''7:0'', tabId = 7, frameId = 0, title = ''Radio'',
        url = ''https://example.org/'', favIconUrl = None, artworkUrl = None,
        state = \<lparr>paused = False, muted = False, volume = 1, currentTime = 0, duration = 200,
                  canSeek = True, ended = False\<rparr>, lastActiveAt = 1700000000000\<rparr>)]"
  "lastActiveSessionId one_session = Some ''7:0''"
  "lastBroadcastTimestamps one_session ''7:0'' = Some 1700000000000"
  "length (broadcasts one_session) = 1"
  by (simp_all add: one_session_def updateSession_def Let_def broadcastToPopups_def
      new_manager_def snapshot_def example_tab_def sessionIdOf_examples title_or_def)

lemma three_sessions_eq:
  "sessions three_sessions =
    [(''7:0'', \<lparr>session_id = ''7:0'', tabId = 7, frameId = 0, title = ''Radio'',
        url = ''https://example.org/'', favIconUrl = None, artworkUrl = None,
        state = \<lparr>paused = False, muted = False, volume = 1, currentTime = 0, duration = 200,
                  canSeek = True, ended = False\<rparr>, lastActiveAt = 1700000000000\<rparr>),
     (''8:0'', \<lparr>session_id = ''8:0'', tabId = 8, frameId = 0, title = ''Radio'',
        url = ''https://example.org/'', favIconUrl = None, artworkUrl = None,
        state = \<lparr>paused = False, muted = False, volume = 1, currentTime = 0, duration = 300,
                  canSeek = True, ended = False\<rparr>, lastActiveAt = 1700000001000\<rparr>),
     (''9:0'', \<lparr>session_id = ''9:0'', tabId = 9, frameId = 0, title = ''Radio'',
        url = ''https://example.org/'', favIconUrl = None, artworkUrl = None,
        state = \<lparr>paused = False, muted = False, volume = 1, currentTime = 0, duration = 400,
                  canSeek = True, ended = False\<rparr>, lastActiveAt = 1700000002000\<rparr>)]"
  "lastActiveSessionId three_sessions = Some ''9:0''"
  by (simp_all add: three_sessions_def two_sessions_def one_session_def updateSession_def Let_def
      broadcastToPopups_def new_manager_def snapshot_def example_tab_def sessionIdOf_examples
      title_or_def)

lemma mostRecentLoop_cases:
  "(mostRecentLoop ss mr t = mr \<and> (\<forall>s \<in> set ss. lastActiveAt s \<le> t))
   \<or> (\<exists>s \<in> set ss. mostRecentLoop ss mr t = Some (session_id s) \<and> t < lastActiveAt s
         \<and> (\<forall>u \<in> set ss. lastActiveAt u \<le> lastActiveAt s))"
proof (induction ss arbitrary: mr t)
  case Nil
  then show ?case by simp
next
  case (Cons a ss)
  show ?case
  proof (cases "lastActiveAt a > t")
    case True
    from Cons.IH [of "Some (session_id a)" "lastActiveAt a"] True
    show ?thesis by (auto intro: order_trans less_trans)
  next
    case False
    from Cons.IH [of mr t] False
    show ?thesis by (auto intro: order_trans)
  qed
qed

lemma mostRecentLoop_positive:
  assumes "ss \<noteq> []" and "\<forall>s \<in> set ss. 0 < lastActiveAt s"
  shows "\<exists>s \<in> set ss. mostRecentLoop ss None 0 = Some (session_id s)
           \<and> (\<forall>u \<in> set ss. lastActiveAt u \<le> lastActiveAt s)"
proof -
  from assms obtain a where a: "a \<in> set ss" "0 < lastActiveAt a"
    by (cases ss) auto
  from mostRecentLoop_cases [of ss None 0] a show ?thesis
    by fastforce
qed

lemma removeSession_present:
  "sid \<in> fst ` set (sessions m) \<Longrightarrow>
   removeSession sid m =
     broadcastToPopups (SESSION_REMOVED sid)
       (if lastActiveSessionId m = Some sid
        then m\<lparr>sessions := AList.delete sid (sessions m),
               lastActiveSessionId :=
                 mostRecentLoop (map snd (AList.delete sid (sessions m))) None 0\<rparr>
        else m\<lparr>sessions := AList.delete sid (sessions m)\<rparr>)"
  by (simp add: removeSession_def map_delete_def Let_def findMostRecentActiveSession_def)

lemma removeSession_not_present:
  "sid \<notin> fst ` set (sessions m) \<Longrightarrow> removeSession sid m = m"
  by (simp add: removeSession_def map_delete_def Let_def)

text \<open>
  Every \<open>lastActiveAt\<close> of the registry is a reading of \<^verbatim>\<open>Date.now()\<close>, so all of them
  are positive as long as the clock is: both operations keep that.
\<close>

lemma updateSession_keeps_positive:
  assumes "0 < now" and "\<forall>s \<in> snd ` set (sessions m). 0 < lastActiveAt s"
  shows "\<forall>s \<in> snd ` set (sessions (updateSession sd tid fid tabResult now m)). 0 < lastActiveAt s"
proof (cases "tabResult = None \<or> sd_state sd = None")
  case True
  with assms(2) show ?thesis
    by (auto simp add: updateSession_def Let_def split: option.splits)
next
  case False
  then obtain tb st where ts: "tabResult = Some tb" "sd_state sd = Some st"
    by auto
  then have sd: "sd = sd\<lparr>sd_state := Some st\<rparr>"
    by simp
  have "0 < lastActiveAt (stored_session sd st tid fid tb now m)"
    using assms
    by (auto simp add: stored_session_def split: option.splits dest!: map_of_SomeD)
  moreover have "set (sessions (updateSession sd tid fid tabResult now m)) \<subseteq>
      insert (sessionIdOf tid fid, stored_session sd st tid fid tb now m) (set (sessions m))"
    using updateSession_sessions [where sd = sd and st = st and tid = tid and fid = fid
            and tb = tb and now = now and m = m] sd ts(1)
    by (simp add: set_update_subset)
  ultimately show ?thesis
    using assms(2) by fastforce
qed

lemma removeSession_keeps_positive:
  assumes "\<forall>s \<in> snd ` set (sessions m). 0 < lastActiveAt s"
  shows "\<forall>s \<in> snd ` set (sessions (removeSession sid m)). 0 < lastActiveAt s"
proof -
  have "set (sessions (removeSession sid m)) \<subseteq> set (sessions m)"
    by (cases "sid \<in> fst ` set (sessions m)")
       (auto simp add: removeSession_present removeSession_not_present broadcastToPopups_def
         AList.delete_eq)
  with assms show ?thesis by fastforce
qed

subsection \<open>Stored playback position\<close>

text \<open>
  Claim C1, as stated, fails: \<^const>\<open>updateSession\<close> stores the snapshot's \<open>state\<close> as it
  arrives and clamps nothing.  A snapshot with position 10 s and duration 5 s leaves a record
  with \<open>currentTime = 10\<close> and \<open>duration = 5\<close> in the registry.
\<close>

theorem stored_position_exceeds_duration:
  "map_option state
     (map_of (sessions (updateSession (snapshot False 10 5) 7 0 (Some example_tab)
                          1700000000000 new_manager)) ''7:0'')
   = Some \<lparr>paused = False, muted = False, volume = 1, currentTime = 10, duration = 5,
            canSeek = True, ended = False\<rparr>"
  by (simp add: updateSession_def Let_def broadcastToPopups_def new_manager_def snapshot_def
      example_tab_def sessionIdOf_examples)

text \<open>
  Claim C1, amended: the record stored for a processed snapshot carries the snapshot's state
  unchanged, so its \<open>currentTime\<close> lies in \<open>[0, duration]\<close> exactly when the snapshot's
  does; and if that holds of every record of the registry and of the snapshot, it holds of
  every record afterwards.
\<close>

theorem updateSession_stores_state_verbatim:
  "let sid = sessionIdOf tid fid;
       m' = updateSession (sd\<lparr>sd_state := Some st\<rparr>) tid fid (Some tb) now m
   in map_option state (map_of (sessions m') sid) = Some st
      \<and> ((\<forall>s \<in> snd ` set (sessions m).
             0 \<le> currentTime (state s) \<and> currentTime (state s) \<le> duration (state s))
          \<and> 0 \<le> currentTime st \<and> currentTime st \<le> duration st
          \<longrightarrow> (\<forall>s \<in> snd ` set (sessions m').
                 0 \<le> currentTime (state s) \<and> currentTime (state s) \<le> duration (state s)))"
proof -
  let ?sid = "sessionIdOf tid fid"
  let ?m' = "updateSession (sd\<lparr>sd_state := Some st\<rparr>) tid fid (Some tb) now m"
  have stored: "map_option state (map_of (sessions ?m') ?sid) = Some st"
    by (simp add: updateSession_lookup stored_session_def)
  have sub: "set (sessions ?m') \<subseteq>
             insert (?sid, stored_session sd st tid fid tb now m) (set (sessions m))"
    by (simp add: updateSession_sessions set_update_subset)
  have "state (stored_session sd st tid fid tb now m) = st"
    by (simp add: stored_session_def)
  with sub have inv: "\<forall>s \<in> snd ` set (sessions ?m').
        0 \<le> currentTime (state s) \<and> currentTime (state s) \<le> duration (state s)"
    if "\<forall>s \<in> snd ` set (sessions m).
          0 \<le> currentTime (state s) \<and> currentTime (state s) \<le> duration (state s)"
       "0 \<le> currentTime st" "currentTime st \<le> duration st"
    using that by fastforce
  from stored inv show ?thesis
    unfolding Let_def by blast
qed

theorem updateSession_stores_state_verbatim_witness:
  "map_option state
     (map_of (sessions (updateSession (snapshot False 30 200) 7 0 (Some example_tab)
                          1700000000500 one_session)) ''7:0'')
   = Some \<lparr>paused = False, muted = False, volume = 1, currentTime = 30, duration = 200,
            canSeek = True, ended = False\<rparr>
   \<and> list_all (\<lambda>s. 0 \<le> currentTime (state s) \<and> currentTime (state s) \<le> duration (state s))
        (map snd (sessions (updateSession (snapshot False 30 200) 7 0 (Some example_tab)
                              1700000000500 one_session)))"
proof -
  let ?st = "\<lparr>paused = False, muted = False, volume = 1, currentTime = 30, duration = 200,
              canSeek = True, ended = False\<rparr>"
  have old: "\<forall>s \<in> snd ` set (sessions one_session).
               0 \<le> currentTime (state s) \<and> currentTime (state s) \<le> duration (state s)"
    by (simp add: one_session_eq)
  have new: "0 \<le> currentTime ?st \<and> currentTime ?st \<le> duration ?st"
    by simp
  from updateSession_stores_state_verbatim
         [where tid = 7 and fid = 0 and sd = "snapshot False 30 200" and st = ?st
            and tb = example_tab and now = 1700000000500 and m = one_session]
       old new
  show ?thesis
    by (simp add: Let_def snapshot_as_update [symmetric] sessionIdOf_examples list_all_iff)
qed

subsection \<open>Activity tracking\<close>

text \<open>
  Claim C2: for a processed snapshot with state \<open>st\<close>, the stored \<open>lastActiveAt\<close> is the
  current time when no previous record exists and \<open>st\<close> is playing, or the previous record
  was paused and \<open>st\<close> is playing; otherwise it is the previous record's value, or the
  current time when there is none.  The active-session pointer becomes the session's id in
  exactly those two cases and keeps its value in every other case, also when the snapshot is
  dropped (the tab lookup fails, or the snapshot has no state).
\<close>

theorem updateSession_lastActiveAt:
  "let sid = sessionIdOf tid fid;
       prev = map_of (sessions m) sid;
       m' = updateSession (sd\<lparr>sd_state := Some st\<rparr>) tid fid (Some tb) now m;
       becomesPlaying = ((prev = None \<and> \<not> paused st)
                         \<or> (\<exists>p. prev = Some p \<and> paused (state p) \<and> \<not> paused st))
   in map_option lastActiveAt (map_of (sessions m') sid) =
        Some (if becomesPlaying then now
              else case prev of None \<Rightarrow> now | Some p \<Rightarrow> lastActiveAt p)
      \<and> lastActiveSessionId m' = (if becomesPlaying then Some sid else lastActiveSessionId m)
      \<and> lastActiveSessionId (updateSession sd tid fid None now m) = lastActiveSessionId m
      \<and> lastActiveSessionId (updateSession (sd\<lparr>sd_state := None\<rparr>) tid fid tabResult now m)
          = lastActiveSessionId m"
  by (auto simp add: updateSession_lookup stored_session_def updateSession_pointer
      updateSession_dropped Let_def split: option.splits)

theorem updateSession_lastActiveAt_witness:
  "map_option lastActiveAt (map_of (sessions paused_7) ''7:0'') = Some 1700000000000
   \<and> lastActiveSessionId paused_7 = Some ''9:0''
   \<and> map_option lastActiveAt (map_of (sessions resumed_7) ''7:0'') = Some 1700000004000
   \<and> lastActiveSessionId resumed_7 = Some ''7:0''"
proof -
  let ?p = "\<lparr>paused = True, muted = False, volume = 1, currentTime = 5, duration = 200,
             canSeek = True, ended = False\<rparr>"
  let ?r = "\<lparr>paused = False, muted = False, volume = 1, currentTime = 5, duration = 200,
             canSeek = True, ended = False\<rparr>"
  have prev1: "map_of (sessions three_sessions) ''7:0'' = Some (snd (hd (sessions three_sessions)))"
    by (simp add: three_sessions_eq)
  from updateSession_lastActiveAt
         [where tid = 7 and fid = 0 and sd = "snapshot True 5 200" and st = ?p
            and tb = example_tab and now = 1700000003000 and m = three_sessions]
  have a: "map_option lastActiveAt (map_of (sessions paused_7) ''7:0'') = Some 1700000000000
           \<and> lastActiveSessionId paused_7 = Some ''9:0''"
    by (simp add: Let_def snapshot_as_update [symmetric] sessionIdOf_examples paused_7_def
        prev1 three_sessions_eq)
  have prev2: "map_option (\<lambda>s. paused (state s)) (map_of (sessions paused_7) ''7:0'') = Some True"
    by (simp add: paused_7_def snapshot_def updateSession_def Let_def broadcastToPopups_def
        sessionIdOf_examples update_conv three_sessions_eq)
  then obtain p where p: "map_of (sessions paused_7) ''7:0'' = Some p" "paused (state p)"
    by auto
  from updateSession_lastActiveAt
         [where tid = 7 and fid = 0 and sd = "snapshot False 5 200" and st = ?r
            and tb = example_tab and now = 1700000004000 and m = paused_7]
  have b: "map_option lastActiveAt (map_of (sessions resumed_7) ''7:0'') = Some 1700000004000
           \<and> lastActiveSessionId resumed_7 = Some ''7:0''"
    by (simp add: Let_def snapshot_as_update [symmetric] sessionIdOf_examples resumed_7_def p)
  from a b show ?thesis by simp
qed

subsection \<open>Broadcast throttling\<close>

text \<open>
  Claim C3, as stated, fails: the 300 ms are counted from the last broadcast for the session
  id, not from the previous snapshot.  Session 7:0 is first seen at \<open>t\<close> (broadcast); its
  snapshot at \<open>t + 100\<close> is throttled; its snapshot at \<open>t + 350\<close>, which arrives 250 ms
  after the previous one with no paused/playing transition, is broadcast.  Of these two
  snapshots less than 300 ms apart the first yields no broadcast and the second yields one.
  And when the third snapshot arrives at \<open>t + 400\<close> instead, 300 ms after the second, the
  two yield one broadcast, not two.
\<close>

theorem broadcast_measured_from_last_broadcast_not_previous_snapshot:
  "1700000000350 - 1700000000100 < (300::int)
   \<and> length (broadcasts one_session) = 1
   \<and> length (broadcasts after_second) = 1
   \<and> length (broadcasts after_third) = 2
   \<and> 1700000000400 - 1700000000100 \<ge> (300::int)
   \<and> length (broadcasts after_third_late) = 2"
  by (simp add: after_third_def after_third_late_def after_second_def one_session_def
      updateSession_def Let_def broadcastToPopups_def new_manager_def snapshot_def
      example_tab_def sessionIdOf_examples title_or_def)

text \<open>
  Claim C3, amended: the 300 ms are measured from the last broadcast for the session id
  (0 when there was none).  A processed snapshot with no paused/playing transition against
  the stored record is broadcast exactly if it is processed at least 300 ms after that
  time, and a snapshot that is not broadcast leaves that time as it is.  So of two
  consecutive processed snapshots of one session id with no transition between them, the
  second is broadcast exactly if it is processed at least 300 ms after the first when the
  first was broadcast (less than 300 ms apart: one broadcast; at least 300 ms apart: two),
  and exactly if it is processed at least 300 ms after the broadcast before the first when
  the first was not.  A snapshot with a paused/playing transition and the first snapshot of
  a session are always broadcast; a broadcast carries the stored record; and in every case
  the stored record carries the new snapshot.
\<close>

theorem updateSession_throttle:
  "let sid = sessionIdOf tid fid;
       m1 = updateSession (sda\<lparr>sd_state := Some sta\<rparr>) tid fid (Some tba) ta m;
       m2 = updateSession (sdb\<lparr>sd_state := Some stb\<rparr>) tid fid (Some tbb) tb m1;
       lastBroadcast = (case lastBroadcastTimestamps m sid of None \<Rightarrow> 0 | Some t \<Rightarrow> t);
       lastBroadcast1 = (case lastBroadcastTimestamps m1 sid of None \<Rightarrow> 0 | Some t \<Rightarrow> t);
       n = length (broadcasts m); n1 = length (broadcasts m1); n2 = length (broadcasts m2)
   in (paused stb = paused sta \<longrightarrow> n2 = (if tb - lastBroadcast1 < 300 then n1 else n1 + 1))
    \<and> (n1 = n + 1 \<and> lastBroadcastTimestamps m1 sid = Some ta
        \<or> n1 = n \<and> lastBroadcastTimestamps m1 sid = lastBroadcastTimestamps m sid)
    \<and> (n1 = n + 1 \<and> paused stb = paused sta \<longrightarrow> n2 = (if tb - ta < 300 then n1 else n1 + 1))
    \<and> (n1 = n \<and> paused stb = paused sta \<longrightarrow>
          n2 = (if tb - lastBroadcast < 300 then n1 else n1 + 1))
    \<and> (paused stb \<noteq> paused sta \<longrightarrow> n2 = n1 + 1)
    \<and> (map_of (sessions m) sid = None \<longrightarrow> n1 = n + 1)
    \<and> (broadcasts m2 = broadcasts m1
        \<or> (\<exists>s. map_of (sessions m2) sid = Some s
                \<and> broadcasts m2 = broadcasts m1 @ [SESSION_UPDATED s]))
    \<and> map_option state (map_of (sessions m1) sid) = Some sta
    \<and> map_option state (map_of (sessions m2) sid) = Some stb"
  by (auto simp add: updateSession_lookup stored_session_def updateSession_broadcasts
      updateSession_timestamps Let_def split: option.splits if_splits)

theorem updateSession_throttle_witness:
  "length (broadcasts (new_manager :: real manager)) = 0
   \<and> length (broadcasts one_session) = 1
   \<and> length (broadcasts after_second) = 1
   \<and> lastBroadcastTimestamps after_second ''7:0'' = Some 1700000000000
   \<and> length (broadcasts after_third) = 2
   \<and> length (broadcasts second_late) = 2
   \<and> length (broadcasts second_paused) = 2"
proof -
  let ?s0 = "\<lparr>paused = False, muted = False, volume = 1, currentTime = 0, duration = 200,
              canSeek = True, ended = False\<rparr>"
  let ?s1 = "\<lparr>paused = False, muted = False, volume = 1, currentTime = 1, duration = 200,
              canSeek = True, ended = False\<rparr>"
  let ?s1p = "\<lparr>paused = True, muted = False, volume = 1, currentTime = 1, duration = 200,
              canSeek = True, ended = False\<rparr>"
  let ?s2 = "\<lparr>paused = False, muted = False, volume = 1, currentTime = 2, duration = 200,
              canSeek = True, ended = False\<rparr>"
  have fresh: "map_of (sessions (new_manager :: real manager)) ''7:0'' = None"
    "length (broadcasts (new_manager :: real manager)) = 0"
    by (simp_all add: new_manager_def)
  from updateSession_throttle
       [where tid = 7 and fid = 0 and sda = "snapshot False 0 200" and sta = ?s0
          and tba = example_tab and ta = 1700000000000 and m = new_manager
          and sdb = "snapshot False 1 200" and tbb = example_tab
          and stb = ?s1 and tb = 1700000000100] fresh
  have a: "length (broadcasts one_session) = 1 \<and> length (broadcasts after_second) = 1"
    by (auto simp add: Let_def snapshot_as_update [symmetric] sessionIdOf_examples
        after_second_def one_session_def [symmetric] split: if_splits)
  from updateSession_throttle
       [where tid = 7 and fid = 0 and sda = "snapshot False 1 200" and sta = ?s1
          and tba = example_tab and ta = 1700000000100 and m = one_session
          and sdb = "snapshot False 2 200" and tbb = example_tab
          and stb = ?s2 and tb = 1700000000350] a
  have b: "lastBroadcastTimestamps after_second ''7:0'' = Some 1700000000000
           \<and> length (broadcasts after_third) = 2"
    by (auto simp add: Let_def snapshot_as_update [symmetric] sessionIdOf_examples
        after_third_def after_second_def [symmetric] one_session_eq split: if_splits)
  from updateSession_throttle
       [where tid = 7 and fid = 0 and sda = "snapshot False 0 200" and sta = ?s0
          and tba = example_tab and ta = 1700000000000 and m = new_manager
          and sdb = "snapshot False 1 200" and tbb = example_tab
          and stb = ?s1 and tb = 1700000000300] fresh
  have c: "length (broadcasts second_late) = 2"
    by (auto simp add: Let_def snapshot_as_update [symmetric] sessionIdOf_examples
        second_late_def one_session_def [symmetric] split: if_splits)
  from updateSession_throttle
       [where tid = 7 and fid = 0 and sda = "snapshot False 0 200" and sta = ?s0
          and tba = example_tab and ta = 1700000000000 and m = new_manager
          and sdb = "snapshot True 1 200" and tbb = example_tab
          and stb = ?s1p and tb = 1700000000100] fresh
  have d: "length (broadcasts second_paused) = 2"
    by (auto simp add: Let_def snapshot_as_update [symmetric] sessionIdOf_examples
        second_paused_def one_session_def [symmetric] split: if_splits)
  from a b c d fresh show ?thesis by simp
qed

subsection \<open>Removal\<close>

text \<open>
  Claim C4: when \<^const>\<open>removeSession\<close> removes the session the active-session pointer
  refers to, the pointer becomes the id of a surviving session whose \<open>lastActiveAt\<close> is
  greatest, or \<open>None\<close> when no session survives; removing any other session leaves the pointer
  unchanged.  The timestamps of the registry are readings of \<^verbatim>\<open>Date.now()\<close> and so
  positive, which \<^const>\<open>updateSession\<close> and \<^const>\<open>removeSession\<close> keep
  (\<open>updateSession_keeps_positive\<close>, \<open>removeSession_keeps_positive\<close>).
\<close>

theorem removeSession_recomputes_active:
  assumes pos: "\<forall>s \<in> snd ` set (sessions m). 0 < lastActiveAt s"
  shows "let m' = removeSession sid m in
          (lastActiveSessionId m = Some sid \<and> sid \<in> fst ` set (sessions m) \<longrightarrow>
             sessions m' = AList.delete sid (sessions m)
             \<and> (if sessions m' = [] then lastActiveSessionId m' = None
                else \<exists>s \<in> snd ` set (sessions m').
                       lastActiveSessionId m' = Some (session_id s)
                       \<and> (\<forall>u \<in> snd ` set (sessions m'). lastActiveAt u \<le> lastActiveAt s)))
          \<and> (lastActiveSessionId m \<noteq> Some sid \<longrightarrow> lastActiveSessionId m' = lastActiveSessionId m)"
proof -
  let ?rest = "AList.delete sid (sessions m)"
  have sub: "set ?rest \<subseteq> set (sessions m)"
    by (auto simp: AList.delete_eq)
  with pos have pos': "\<forall>s \<in> set (map snd ?rest). 0 < lastActiveAt s"
    by auto
  have active: "lastActiveSessionId (removeSession sid m) = mostRecentLoop (map snd ?rest) None 0
                \<and> sessions (removeSession sid m) = ?rest"
    if "lastActiveSessionId m = Some sid" "sid \<in> fst ` set (sessions m)"
    using that by (simp add: removeSession_present broadcastToPopups_def)
  have other: "lastActiveSessionId (removeSession sid m) = lastActiveSessionId m"
    if "lastActiveSessionId m \<noteq> Some sid"
  proof (cases "sid \<in> fst ` set (sessions m)")
    case True
    with that show ?thesis by (simp add: removeSession_present broadcastToPopups_def)
  next
    case False
    then show ?thesis by (simp add: removeSession_not_present)
  qed
  have rec: "\<exists>s \<in> snd ` set ?rest. mostRecentLoop (map snd ?rest) None 0 = Some (session_id s)
               \<and> (\<forall>u \<in> snd ` set ?rest. lastActiveAt u \<le> lastActiveAt s)"
    if "?rest \<noteq> []"
    using mostRecentLoop_positive [of "map snd ?rest"] that pos' by simp
  show ?thesis
    unfolding Let_def using active other rec by auto
qed

theorem removeSession_recomputes_active_witness:
  "lastActiveSessionId three_sessions = Some ''9:0''
   \<and> map fst (sessions (removeSession ''9:0'' three_sessions)) = [''7:0'', ''8:0'']
   \<and> lastActiveSessionId (removeSession ''9:0'' three_sessions) = Some ''8:0''"
proof -
  have pos: "\<forall>s \<in> snd ` set (sessions three_sessions). 0 < lastActiveAt s"
    by (simp add: three_sessions_eq)
  have act: "lastActiveSessionId three_sessions = Some ''9:0''"
    and mem: "''9:0'' \<in> fst ` set (sessions three_sessions)"
    by (simp_all add: three_sessions_eq)
  note inst = removeSession_recomputes_active [OF pos, of "''9:0''", unfolded Let_def]
  from inst act mem
  have rest: "sessions (removeSession ''9:0'' three_sessions) = AList.delete ''9:0'' (sessions three_sessions)"
    by blast
  then have rest': "sessions (removeSession ''9:0'' three_sessions) = take 2 (sessions three_sessions)"
    by (simp add: three_sessions_eq)
  from inst act mem rest'
  have "\<exists>s \<in> snd ` set (take 2 (sessions three_sessions)).
           lastActiveSessionId (removeSession ''9:0'' three_sessions) = Some (session_id s)
           \<and> (\<forall>u \<in> snd ` set (take 2 (sessions three_sessions)).
                 lastActiveAt u \<le> lastActiveAt s)"
    by (simp add: three_sessions_eq)
  then have "lastActiveSessionId (removeSession ''9:0'' three_sessions) = Some ''8:0''"
    by (auto simp add: three_sessions_eq)
  with act rest' show ?thesis by (simp add: three_sessions_eq)
qed

text \<open>
  Claim C10: \<^const>\<open>removeSession\<close> with an id that is not in the registry changes nothing:
  the registry, the active-session pointer and the log of broadcasts (so no
  \<^verbatim>\<open>SESSION_REMOVED\<close> is sent) are as before.
\<close>

theorem removeSession_absent:
  "sid \<notin> fst ` set (sessions m) \<Longrightarrow> removeSession sid m = m"
  by (simp add: removeSession_def map_delete_def Let_def)

theorem removeSession_absent_witness:
  "removeSession ''5:0'' three_sessions = three_sessions"
proof -
  have "''5:0'' \<notin> fst ` set (sessions three_sessions)"
    by (simp add: three_sessions_eq)
  then show ?thesis by (rule removeSession_absent)
qed

section \<open>Properties of the agent\<close>

subsection \<open>Time text\<close>

lemmas parse_defs = parseTimeString_def trim_def is_space_def is_digit_def parseInt_or_0_def
  parseInt_def digit_value_def Let_def

lemma set_trim: "set (trim s) \<subseteq> set s"
proof -
  have "set (dropWhile is_space xs) \<subseteq> set xs" for xs
    by (auto dest: set_dropWhileD)
  from this [of "rev (dropWhile is_space s)"] this [of s] show ?thesis
    by (auto simp add: trim_def)
qed

lemma filter_trim:
  assumes "\<And>c. P c \<Longrightarrow> \<not> is_space c"
  shows "filter P (trim s) = filter P s"
proof -
  have drop: "filter P (dropWhile is_space xs) = filter P xs" for xs
    using assms by (induction xs) auto
  have "filter P (trim s) = rev (filter P (dropWhile is_space (rev (dropWhile is_space s))))"
    by (simp add: trim_def rev_filter)
  also have "\<dots> = rev (filter P (rev (dropWhile is_space s)))"
    by (simp only: drop)
  also have "\<dots> = filter P (dropWhile is_space s)"
    by (simp add: rev_filter)
  finally show ?thesis by (simp add: drop)
qed

lemma length_split_colon:
  "length (split_colon cur s) = Suc (length (filter (\<lambda>c. c = CHR '':'') s))"
  by (induction s arbitrary: cur) auto

lemma split_colon_only_colons:
  "\<forall>c \<in> set s. c = CHR '':'' \<Longrightarrow> set (split_colon [] s) \<subseteq> {[]}"
  by (induction s) auto

lemma parseInt_or_0_Nil: "parseInt_or_0 [] = 0"
  by (simp add: parseInt_or_0_def parseInt_def)

lemma colons_of_cleanStr:
  "filter (\<lambda>c. c = CHR '':'') (filter (\<lambda>c. is_digit c \<or> c = CHR '':'') (trim s))
   = filter (\<lambda>c. c = CHR '':'') s"
proof -
  have "filter (\<lambda>c. c = CHR '':'') (filter (\<lambda>c. is_digit c \<or> c = CHR '':'') (trim s))
        = filter (\<lambda>c. c = CHR '':'') (trim s)"
    by (simp add: conj_commute cong: conj_cong)
  also have "\<dots> = filter (\<lambda>c. c = CHR '':'') s"
    by (rule filter_trim) (simp add: is_space_def)
  finally show ?thesis .
qed

lemma parseTimeString_fields:
  assumes "length (filter (\<lambda>c. c = CHR '':'') s) \<notin> {1, 2}"
  shows "parseTimeString (Some s) = 0"
proof -
  have "length (split_colon [] (filter (\<lambda>c. is_digit c \<or> c = CHR '':'') (trim s)))
        = Suc (length (filter (\<lambda>c. c = CHR '':'') s))"
    by (simp only: length_split_colon colons_of_cleanStr)
  with assms show ?thesis
    by (auto simp add: parseTimeString_def Let_def)
qed

lemma parseTimeString_no_digit:
  assumes "\<forall>c \<in> set s. \<not> is_digit c"
  shows "parseTimeString (Some s) = 0"
proof -
  let ?clean = "filter (\<lambda>c. is_digit c \<or> c = CHR '':'') (trim s)"
  let ?parts = "split_colon [] ?clean"
  from assms set_trim [of s] have "\<forall>c \<in> set ?clean. c = CHR '':''"
    by auto
  then have parts: "set ?parts \<subseteq> {[]}"
    by (rule split_colon_only_colons)
  have "parseInt_or_0 (?parts ! i) = 0" if "i < length ?parts" for i
  proof -
    from that have "?parts ! i \<in> set ?parts" by (rule nth_mem)
    with parts have "?parts ! i = []" by auto
    then show ?thesis by (simp add: parseInt_or_0_Nil)
  qed
  then show ?thesis
    by (simp add: parseTimeString_def Let_def)
qed

lemma is_digit_not_space: "is_digit c \<Longrightarrow> \<not> is_space c"
  by (auto simp add: is_digit_def is_space_def)

lemma is_digit_not_sign: "is_digit c \<Longrightarrow> c \<noteq> CHR ''-'' \<and> c \<noteq> CHR ''+'' \<and> c \<noteq> CHR '':''"
  by (auto simp add: is_digit_def)

lemma digit_value_zero: "is_digit c \<Longrightarrow> (digit_value c = 0) = (c = CHR ''0'')"
  by (auto simp add: is_digit_def digit_value_def)

lemma split_colon_chars:
  "(\<Union>p \<in> set (split_colon cur xs). set p) = set cur \<union> (set xs - {CHR '':''})"
  by (induction xs arbitrary: cur) auto

lemma foldl_digits_zero:
  "(foldl (\<lambda>acc c. 10 * acc + digit_value c) a p = (0::nat))
     = (a = 0 \<and> (\<forall>c \<in> set p. digit_value c = 0))"
  by (induction p arbitrary: a) auto

lemma parseInt_or_0_digits:
  assumes "\<forall>c \<in> set p. is_digit c"
  shows "parseInt_or_0 p = int (foldl (\<lambda>acc c. 10 * acc + digit_value c) 0 p)"
proof (cases p)
  case Nil
  then show ?thesis by (simp add: parseInt_or_0_def parseInt_def)
next
  case (Cons c r)
  with assms have c: "is_digit c" by simp
  from assms Cons have all: "takeWhile is_digit r = r"
    by (simp add: takeWhile_eq_all_conv)
  from c have "dropWhile is_space p = p"
    using Cons by (simp add: is_digit_not_space)
  with c all Cons show ?thesis
    using is_digit_not_sign [OF c]
    by (simp add: parseInt_or_0_def parseInt_def Let_def del: takeWhile_eq_all_conv)
qed

lemma parseInt_or_0_zero:
  assumes "\<forall>c \<in> set p. is_digit c"
  shows "0 \<le> parseInt_or_0 p" and "(parseInt_or_0 p = 0) = (\<forall>c \<in> set p. c = CHR ''0'')"
proof -
  show "0 \<le> parseInt_or_0 p"
    by (simp add: parseInt_or_0_digits [OF assms])
  have "(parseInt_or_0 p = 0) = (\<forall>c \<in> set p. digit_value c = 0)"
    by (simp add: parseInt_or_0_digits [OF assms] foldl_digits_zero)
  also have "\<dots> = (\<forall>c \<in> set p. c = CHR ''0'')"
    using assms by (auto simp add: digit_value_zero)
  finally show "(parseInt_or_0 p = 0) = (\<forall>c \<in> set p. c = CHR ''0'')" .
qed

lemma cleanStr_fields_digits:
  assumes "p \<in> set (split_colon [] (filter (\<lambda>c. is_digit c \<or> c = CHR '':'') xs))"
  shows "\<forall>c \<in> set p. is_digit c"
proof -
  have "(\<Union>p \<in> set (split_colon [] (filter (\<lambda>c. is_digit c \<or> c = CHR '':'') xs)). set p)
        \<subseteq> {c. is_digit c}"
    unfolding split_colon_chars by auto
  with assms show ?thesis by blast
qed

lemma fields_zero:
  assumes "\<forall>p \<in> set parts. \<forall>c \<in> set p. is_digit c"
  shows "(\<forall>p \<in> set parts. parseInt_or_0 p = 0)
           = (\<forall>c \<in> (\<Union>p \<in> set parts. set p). c = CHR ''0'')"
proof -
  have "(parseInt_or_0 p = 0) = (\<forall>c \<in> set p. c = CHR ''0'')" if "p \<in> set parts" for p
    using that assms by (intro parseInt_or_0_zero(2)) blast
  then show ?thesis
    by auto
qed

lemma parseTimeString_zero_iff:
  "(parseTimeString (Some s) = 0)
     = (length (filter (\<lambda>c. c = CHR '':'') s) \<notin> {1, 2}
        \<or> (\<forall>c \<in> set s. is_digit c \<longrightarrow> c = CHR ''0''))"
proof (cases "length (filter (\<lambda>c. c = CHR '':'') s) \<notin> {1, 2}")
  case True
  then show ?thesis by (simp add: parseTimeString_fields)
next
  case False
  then have ne: "s \<noteq> []" by auto
  define parts where "parts = split_colon [] (filter (\<lambda>c. is_digit c \<or> c = CHR '':'') (trim s))"
  have clean: "filter (\<lambda>c. is_digit c \<or> c = CHR '':'') (trim s)
               = filter (\<lambda>c. is_digit c \<or> c = CHR '':'') s"
    by (rule filter_trim) (auto simp add: is_digit_def is_space_def)
  have len: "length parts = Suc (length (filter (\<lambda>c. c = CHR '':'') s))"
    unfolding parts_def by (simp only: length_split_colon colons_of_cleanStr)
  have digits: "\<forall>p \<in> set parts. \<forall>c \<in> set p. is_digit c"
    unfolding parts_def using cleanStr_fields_digits by blast
  have "(\<Union>p \<in> set parts. set p)
          = set (filter (\<lambda>c. is_digit c \<or> c = CHR '':'') s) - {CHR '':''}"
    unfolding parts_def clean split_colon_chars by simp
  also have "\<dots> = {c \<in> set s. is_digit c}"
    using is_digit_not_sign by auto
  finally have chars: "(\<Union>p \<in> set parts. set p) = {c \<in> set s. is_digit c}" .
  have zero: "(\<forall>p \<in> set parts. parseInt_or_0 p = 0)
                = (\<forall>c \<in> set s. is_digit c \<longrightarrow> c = CHR ''0'')"
    unfolding fields_zero [OF digits] chars by blast
  have nonneg: "\<forall>p \<in> set parts. 0 \<le> parseInt_or_0 p"
    using digits parseInt_or_0_zero(1) by blast
  have result: "parseTimeString (Some s)
       = (if length parts = 2 then parseInt_or_0 (parts ! 0) * 60 + parseInt_or_0 (parts ! 1)
          else if length parts = 3
               then parseInt_or_0 (parts ! 0) * 3600 + parseInt_or_0 (parts ! 1) * 60
                    + parseInt_or_0 (parts ! 2)
               else 0)"
    using ne by (simp add: parseTimeString_def Let_def parts_def)
  from False len have "length parts = 2 \<or> length parts = 3"
    by auto
  then show ?thesis
  proof
    assume "length parts = 2"
    then obtain a b where ab: "parts = [a, b]"
      by (cases parts; cases "tl parts") auto
    from nonneg ab have "0 \<le> parseInt_or_0 a" "0 \<le> parseInt_or_0 b" by simp_all
    then have "(parseInt_or_0 a * 60 + parseInt_or_0 b = 0)
               = (parseInt_or_0 a = 0 \<and> parseInt_or_0 b = 0)"
      by arith
    with zero [symmetric] ab False show ?thesis
      by (simp add: result)
  next
    assume "length parts = 3"
    then obtain a b c where abc: "parts = [a, b, c]"
      by (cases parts; cases "tl parts"; cases "tl (tl parts)") auto
    from nonneg abc have "0 \<le> parseInt_or_0 a" "0 \<le> parseInt_or_0 b" "0 \<le> parseInt_or_0 c"
      by simp_all
    then have "(parseInt_or_0 a * 3600 + parseInt_or_0 b * 60 + parseInt_or_0 c = 0)
               = (parseInt_or_0 a = 0 \<and> parseInt_or_0 b = 0 \<and> parseInt_or_0 c = 0)"
      by arith
    with zero [symmetric] abc False show ?thesis
      by (simp add: result)
  qed
qed

lemma parseTimeString_nonneg: "0 \<le> parseTimeString (Some s)"
proof -
  let ?parts = "split_colon [] (filter (\<lambda>c. is_digit c \<or> c = CHR '':'') (trim s))"
  have "0 \<le> parseInt_or_0 (?parts ! i)" if "i < length ?parts" for i
    using that parseInt_or_0_zero(1) [OF cleanStr_fields_digits] nth_mem by blast
  then have "length ?parts = 2 \<Longrightarrow>
               0 \<le> parseInt_or_0 (?parts ! 0) \<and> 0 \<le> parseInt_or_0 (?parts ! 1)"
    and "length ?parts = 3 \<Longrightarrow>
               0 \<le> parseInt_or_0 (?parts ! 0) \<and> 0 \<le> parseInt_or_0 (?parts ! 1)
               \<and> 0 \<le> parseInt_or_0 (?parts ! 2)"
    by simp_all
  then show ?thesis
    by (simp add: parseTimeString_def Let_def)
qed

lemma parseTimeString_digits_and_colons:
  "parseTimeString (Some s)
     = parseTimeString (Some (filter (\<lambda>c. is_digit c \<or> c = CHR '':'') s))"
proof -
  let ?P = "\<lambda>c. is_digit c \<or> c = CHR '':''"
  have sp: "?P c \<Longrightarrow> \<not> is_space c" for c
    by (auto simp add: is_digit_def is_space_def)
  have a: "filter ?P (trim s) = filter ?P s"
    by (rule filter_trim) (rule sp)
  have b: "filter ?P (trim (filter ?P s)) = filter ?P s"
    using filter_trim [of ?P "filter ?P s", OF sp] by simp
  show ?thesis
  proof (cases "filter ?P s = []")
    case True
    then show ?thesis
      by (simp add: parseTimeString_def Let_def a)
  next
    case False
    then have "s \<noteq> []" by auto
    with False show ?thesis
      by (simp add: parseTimeString_def Let_def a b)
  qed
qed

text \<open>
  Claim C6, as stated, fails: \<^const>\<open>parseTimeString\<close> removes every character that is
  neither a digit nor a colon before it looks for the fields, and an empty field counts as
  0.  So texts that hold no \<^verbatim>\<open>MM:SS\<close> or \<^verbatim>\<open>HH:MM:SS\<close> value are not all mapped to 0:
  \<^verbatim>\<open>"12:xx"\<close> is read as 12 minutes, \<^verbatim>\<open>"1:"\<close> as one minute and
  \<^verbatim>\<open>"Chapter 3: The End"\<close> as three minutes.
\<close>

theorem parseTimeString_reads_text_without_time_value:
  "parseTimeString (Some ''12:xx'') = 720
   \<and> parseTimeString (Some ''1:'') = 60
   \<and> parseTimeString (Some ''Chapter 3: The End'') = 180"
  by (simp add: parse_defs)

text \<open>
  Claim C6, amended: \<^const>\<open>parseTimeString\<close> maps \<^verbatim>\<open>"1:23"\<close> to 83, \<^verbatim>\<open>"0:45"\<close> to 45
  and \<^verbatim>\<open>"1:02:03"\<close> to 3723, and \<^verbatim>\<open>null\<close> and the empty string to 0.  Its result
  depends only on the digits and colons of the text, and it is 0 exactly if the number of
  colons of the text is neither one nor two or the text has no digit other than \<^verbatim>\<open>0\<close>;
  every other text, whether or not it holds a time value, is mapped to a positive number.
  The function is total on strings and \<^verbatim>\<open>null\<close>: none of \<^verbatim>\<open>trim\<close>, \<^verbatim>\<open>replace\<close>,
  \<^verbatim>\<open>split\<close> and \<^verbatim>\<open>parseInt\<close> throws.
\<close>

theorem parseTimeString_values:
  "parseTimeString (Some ''1:23'') = 83
   \<and> parseTimeString (Some ''0:45'') = 45
   \<and> parseTimeString (Some ''1:02:03'') = 3723
   \<and> parseTimeString None = 0
   \<and> parseTimeString (Some []) = 0
   \<and> parseTimeString (Some s)
       = parseTimeString (Some (filter (\<lambda>c. is_digit c \<or> c = CHR '':'') s))
   \<and> (parseTimeString (Some s) = 0)
       = (length (filter (\<lambda>c. c = CHR '':'') s) \<notin> {1, 2}
          \<or> (\<forall>c \<in> set s. is_digit c \<longrightarrow> c = CHR ''0''))
   \<and> 0 \<le> parseTimeString (Some s)"
proof -
  have "parseTimeString (Some ''1:23'') = 83" by (simp add: parse_defs)
  moreover have "parseTimeString (Some ''0:45'') = 45" by (simp add: parse_defs)
  moreover have "parseTimeString (Some ''1:02:03'') = 3723" by (simp add: parse_defs)
  moreover have "parseTimeString None = 0" "parseTimeString (Some []) = 0"
    by (simp_all add: parseTimeString_def)
  moreover note parseTimeString_digits_and_colons [of s] parseTimeString_zero_iff [of s]
    parseTimeString_nonneg [of s]
  ultimately show ?thesis
    by (simp only: simp_thms)
qed

theorem parseTimeString_values_witness:
  "parseTimeString (Some ''Loading...'') = 0
   \<and> parseTimeString (Some ''1:2:3:4'') = 0
   \<and> parseTimeString (Some ''--:--'') = 0
   \<and> parseTimeString (Some ''0:00'') = 0
   \<and> (parseTimeString (Some ''12:xx'') = 0) = False
   \<and> parseTimeString (Some ''12:xx'') = parseTimeString (Some ''12:'')"
proof -
  have a: "length (filter (\<lambda>c. c = CHR '':'') ''Loading...'') \<notin> {1, 2}" by simp
  have b: "length (filter (\<lambda>c. c = CHR '':'') ''1:2:3:4'') \<notin> {1, 2}" by simp
  have c: "\<forall>c \<in> set ''--:--''. is_digit c \<longrightarrow> c = CHR ''0''" by (simp add: is_digit_def)
  have d: "\<forall>c \<in> set ''0:00''. is_digit c \<longrightarrow> c = CHR ''0''" by (simp add: is_digit_def)
  have e: "\<not> (length (filter (\<lambda>c. c = CHR '':'') ''12:xx'') \<notin> {1, 2}
              \<or> (\<forall>c \<in> set ''12:xx''. is_digit c \<longrightarrow> c = CHR ''0''))"
    by (simp add: is_digit_def)
  have f: "filter (\<lambda>c. is_digit c \<or> c = CHR '':'') ''12:xx'' = ''12:''"
    by (simp add: is_digit_def)
  from parseTimeString_values [of "''Loading...''"] a
  have 1: "parseTimeString (Some ''Loading...'') = 0" by blast
  from parseTimeString_values [of "''1:2:3:4''"] b
  have 2: "parseTimeString (Some ''1:2:3:4'') = 0" by blast
  from parseTimeString_values [of "''--:--''"] c
  have 3: "parseTimeString (Some ''--:--'') = 0" by blast
  from parseTimeString_values [of "''0:00''"] d
  have 4: "parseTimeString (Some ''0:00'') = 0" by blast
  from parseTimeString_values [of "''12:xx''"] e
  have 5: "(parseTimeString (Some ''12:xx'') = 0) = False" by blast
  from parseTimeString_values [of "''12:xx''"] f
  have 6: "parseTimeString (Some ''12:xx'') = parseTimeString (Some ''12:'')" by simp
  from 1 2 3 4 5 6 show ?thesis by simp
qed

subsection \<open>Scoring and discovery\<close>

lemma bestLoop_result:
  "bestLoop pg xs b s = (b', s') \<Longrightarrow>
     (\<forall>x \<in> set xs. scoreMediaElement (node pg x) \<le> s') \<and> s \<le> s'
     \<and> ((b' = b \<and> s' = s)
        \<or> (\<exists>x \<in> set xs. b' = Some x \<and> s' = scoreMediaElement (node pg x) \<and> s < s'))"
proof (induction xs arbitrary: b s)
  case Nil
  then show ?case by simp
next
  case (Cons x xs)
  show ?case
  proof (cases "scoreMediaElement (node pg x) > s")
    case True
    with Cons.prems have "bestLoop pg xs (Some x) (scoreMediaElement (node pg x)) = (b', s')"
      by (simp add: Let_def)
    from Cons.IH [OF this] True show ?thesis
      by auto
  next
    case False
    with Cons.prems have "bestLoop pg xs b s = (b', s')"
      by (simp add: Let_def)
    from Cons.IH [OF this] False show ?thesis
      by auto
  qed
qed

lemma disabled_score: "disableRemotePlayback c \<Longrightarrow> scoreMediaElement c = - 1"
  by (simp add: scoreMediaElement_def)

lemma bestCandidate_Some:
  assumes "bestCandidate pg = Some el"
  shows "el \<in> set (mediaElements pg) \<and> 0 \<le> scoreMediaElement (node pg el)
         \<and> (\<forall>x \<in> set (mediaElements pg).
               scoreMediaElement (node pg x) \<le> scoreMediaElement (node pg el))"
proof -
  obtain b' s' where loop: "bestLoop pg (mediaElements pg) None (- 1) = (b', s')"
    by (cases "bestLoop pg (mediaElements pg) None (- 1)")
  with assms have b': "b' = Some el" and s': "0 \<le> s'"
    by (auto simp add: bestCandidate_def split: option.splits if_splits)
  from bestLoop_result [OF loop] b' s' show ?thesis
    by auto
qed

lemma mediaElement_sendUpdate: "mediaElement (sendUpdate pg a) = mediaElement a"
  by (simp add: sendUpdate_def sendSpotifyUpdate_def send_def Let_def
      split: option.splits handle.splits prod.splits)

lemma mediaElement_addBound: "mediaElement (addBound el a ev) = mediaElement a"
  by (simp add: addBound_def bind_def)

lemma mediaElement_attachToElement: "mediaElement (attachToElement h pg a) = Some h"
  by (cases h) (simp_all add: attachToElement_def Let_def mediaElement_sendUpdate
      mediaElement_addBound)

text \<open>
  Claim C5: a candidate with remote playback disabled scores exactly \<open>-1\<close>; the element
  that discovery attaches to is a candidate of the page with a greatest score, its score is at
  least 0 and its remote playback is not disabled; and after \<^const>\<open>findAndAttachMedia\<close>
  the handle is a native element only if it was that element before or the element is that
  best candidate.  So a disabled candidate is never attached to, whatever the other
  candidates score.
\<close>

theorem discovery_attaches_best:
  "(disableRemotePlayback c \<longrightarrow> scoreMediaElement c = - 1)
   \<and> (bestCandidate pg = Some el \<longrightarrow>
        el \<in> set (mediaElements pg)
        \<and> \<not> disableRemotePlayback (node pg el)
        \<and> 0 \<le> scoreMediaElement (node pg el)
        \<and> (\<forall>x \<in> set (mediaElements pg).
              scoreMediaElement (node pg x) \<le> scoreMediaElement (node pg el)))
   \<and> (mediaElement (findAndAttachMedia pg a) = Some (Native el) \<longrightarrow>
        mediaElement a = Some (Native el) \<or> bestCandidate pg = Some el)"
proof -
  have best: "el \<in> set (mediaElements pg) \<and> \<not> disableRemotePlayback (node pg el)
        \<and> 0 \<le> scoreMediaElement (node pg el)
        \<and> (\<forall>x \<in> set (mediaElements pg).
              scoreMediaElement (node pg x) \<le> scoreMediaElement (node pg el))"
    if "bestCandidate pg = Some el"
    using bestCandidate_Some [OF that] disabled_score [of "node pg el"] by auto
  have virt: "mediaElement (createSpotifyVirtualElement pg a) \<noteq> Some (Native el)"
    by (simp add: createSpotifyVirtualElement_def Let_def mediaElement_attachToElement)
  have handle: "mediaElement a = Some (Native el) \<or> bestCandidate pg = Some el"
    if "mediaElement (findAndAttachMedia pg a) = Some (Native el)"
    using that virt
    by (auto simp add: findAndAttachMedia_def mediaElement_attachToElement
        split: if_splits option.splits)
  from best handle disabled_score [of c] show ?thesis
    by blast
qed

lemma example_scores:
  "scoreMediaElement disabled_video = - 1"
  "scoreMediaElement unready_audio = - 10"
  "scoreMediaElement playing_video = 199"
  by (simp_all add: scoreMediaElement_def disabled_video_def unready_audio_def playing_video_def)

lemma example_node:
  "node example_page 1 = disabled_video" "node example_page 2 = unready_audio"
  "node example_page 3 = playing_video" "node example_page 4 = playing_video"
  "node later_page = node example_page" "node unplayable_page = node example_page"
  by (simp_all add: example_page_def later_page_def unplayable_page_def)

lemma example_candidates:
  "bestCandidate example_page = Some 3"
  "bestCandidate later_page = Some 4"
  "bestCandidate unplayable_page = None"
  by (simp_all add: bestCandidate_def Let_def example_page_def later_page_def
      unplayable_page_def example_scores)

theorem discovery_attaches_best_witness:
  "disableRemotePlayback disabled_video \<and> scoreMediaElement disabled_video = - 1
   \<and> bestCandidate example_page = Some 3
   \<and> scoreMediaElement (node example_page 3) = 199
   \<and> mediaElement (findAndAttachMedia example_page new_agent) = Some (Native 3)
   \<and> bestCandidate unplayable_page = None
   \<and> mediaElement (findAndAttachMedia unplayable_page new_agent) = None"
proof -
  have d: "disableRemotePlayback disabled_video"
    by (simp add: disabled_video_def)
  from discovery_attaches_best [of disabled_video example_page 3 new_agent] d
  have "scoreMediaElement disabled_video = - 1"
    by blast
  moreover from discovery_attaches_best [of disabled_video example_page 3 new_agent]
    example_candidates(1)
  have "0 \<le> scoreMediaElement (node example_page 3)"
    by blast
  moreover have "mediaElement (findAndAttachMedia example_page new_agent) = Some (Native 3)"
    by (simp add: findAndAttachMedia_def example_candidates mediaElement_attachToElement)
       (simp add: example_page_def)
  moreover have "mediaElement (findAndAttachMedia unplayable_page new_agent) = None"
    by (simp add: findAndAttachMedia_def example_candidates)
       (simp add: example_page_def unplayable_page_def new_agent_def)
  ultimately show ?thesis
    using d example_candidates by (simp add: example_node example_scores)
qed

subsection \<open>Detaching\<close>

text \<open>
  A function bound on the spot is registered nowhere, so \<^const>\<open>detachFromElement\<close> removes
  no listener.
\<close>

lemma detachFromElement_removes_nothing:
  assumes "\<forall>l \<in> set (listeners a). fst (snd (snd l)) < functionsMade a"
  shows "listeners (detachFromElement a) = listeners a"
proof -
  have step: "listeners (removeBound el b evm) = listeners b
              \<and> functionsMade b \<le> functionsMade (removeBound el b evm)"
    if "\<forall>l \<in> set (listeners b). fst (snd (snd l)) < functionsMade b" for el b evm
  proof -
    have "filter (\<lambda>l. l \<noteq> (el, fst evm, functionsMade b, snd evm)) (listeners b) = listeners b"
      using that by (auto simp add: filter_id_conv)
    then show ?thesis
      by (simp add: removeBound_def bind_def removeEventListener_def)
  qed
  have two: "listeners (removeBound el (removeBound el a e1) e2) = listeners a" for el e1 e2
  proof -
    from step [OF assms, of el e1]
    have "\<forall>l \<in> set (listeners (removeBound el a e1)).
            fst (snd (snd l)) < functionsMade (removeBound el a e1)"
      using assms by fastforce
    from step [OF this, of el e2] step [OF assms, of el e1] show ?thesis
      by simp
  qed
  show ?thesis
    by (auto simp add: detachFromElement_def Let_def two split: option.splits handle.splits)
qed

text \<open>
  Claim C9 does not hold of the code.  The agent attaches to element 3; discovery runs again
  when element 4 is the best candidate and \<^const>\<open>attachToElement\<close> replaces the handle.
  Detaching has removed none of the eight listeners of element 3.  A \<^verbatim>\<open>pause\<close> event on
  element 3 then calls \<^verbatim>\<open>handleMediaEvent\<close>, which sends an update, and a \<^verbatim>\<open>timeupdate\<close>
  event on element 3 calls \<^verbatim>\<open>handleTimeUpdate\<close>, which sets the agent's throttle timer.
\<close>

theorem stale_listeners_fire_after_reattach:
  "mediaElement first_attach = Some (Native 3)
   \<and> mediaElement second_attach = Some (Native 4)
   \<and> listeners (detachFromElement first_attach) = listeners first_attach
   \<and> take 8 (listeners second_attach) = listeners first_attach
   \<and> length (sent (dispatchEvent 3 ''pause'' later_page second_attach))
       = Suc (length (sent second_attach))
   \<and> updateThrottle second_attach = False
   \<and> updateThrottle (dispatchEvent 3 ''timeupdate'' later_page second_attach) = True"
  by code_simp

section \<open>Properties of the control surface\<close>

subsection \<open>What rendering leaves alone\<close>





subsection \<open>Optimistic reconciliation\<close>







lemma dragged_card:
  "cardElements dragged 0 =
     \<lparr>titleText = ''Song'', artistText = ''Band'', showsPlayIcon = False,
      volumeSlider = 1, volumeFocused = False, muteIconMuted = False,
      dragging = True, fillWidth = 50, handleLeft = 50,
      currentTimeText = ''1:40'', durationText = ''3:20'', captured = 0\<rparr>"
  "cardsMade dragged = 1"
  "dragClosures dragged = [0]"
  "posted dragged = [(''7:0'', BeginSeek)]"
  by code_simp+

lemma updated_card:
  "cardElements updated_while_dragged 0 =
     \<lparr>titleText = ''Next'', artistText = ''Band'', showsPlayIcon = True,
      volumeSlider = 1 / 2, volumeFocused = False, muteIconMuted = True,
      dragging = True, fillWidth = 50, handleLeft = 50,
      currentTimeText = ''1:40'', durationText = ''3:20'', captured = 0\<rparr>"
  "posted released = [(''7:0'', BeginSeek), (''7:0'', SetTime 100), (''7:0'', EndSeek)]"
  by code_simp+

lemma toggled_card:
  "optimisticStates toggled ''7:0'' = Some \<lparr>opt_paused = True, opt_timestamp = 1700000000500\<rparr>"
  by code_simp


subsection \<open>Dragging the progress bar\<close>

text \<open>
  The card element \<open>cr\<close> exists and is, in \<open>q\<close>, still dragged and showing the progress of
  \<open>c\<close>.  Rendering keeps this: \<^const>\<open>updateSessionCardDOM\<close> skips the progress display of a
  card with the \<^verbatim>\<open>dragging\<close> class, and a new card is a new element.
\<close>

lemma held_updateSessionCardDOM: "held c c' \<Longrightarrow> held c (updateSessionCardDOM c' s)"
  by (simp add: held_def updateSessionCardDOM_def progressShown_def Let_def split: prod.splits)

lemma renderOne_held:
  assumes "cr < cardsMade p" and "held c (cardElements p cr)"
  shows "cr < cardsMade (renderOne p r) \<and> held c (cardElements (renderOne p r) cr)"
  using assms
  by (auto simp add: renderOne_def Let_def held_updateSessionCardDOM split: option.splits)

lemma foldl_renderOne_held:
  "cr < cardsMade p \<Longrightarrow> held c (cardElements p cr) \<Longrightarrow>
   cr < cardsMade (foldl renderOne p rs) \<and> held c (cardElements (foldl renderOne p rs) cr)"
proof (induction rs arbitrary: p)
  case Nil
  then show ?case by simp
next
  case (Cons r rs)
  from renderOne_held [OF Cons.prems, of r] Cons.IH [of "renderOne p r"]
  show ?case by simp
qed

lemma updateDisplay_held:
  assumes "cr < cardsMade p" and "held c (cardElements p cr)"
  shows "cr < cardsMade (updateDisplay p) \<and> held c (cardElements (updateDisplay p) cr)"
proof (cases "map snd (p_sessions p) = []")
  case True
  with assms show ?thesis by (simp add: updateDisplay_def)
next
  case False
  let ?rs = "map snd (p_sessions p)"
  let ?ids = "set (map (\<lambda>r. session_id (objects p r)) ?rs)"
  let ?q = "p\<lparr>cards := filter (\<lambda>kc. fst kc \<in> ?ids) (cards p)\<rparr>"
  let ?sorted = "sort_key (\<lambda>r. playingRank (objects p r))
                   (sort_key (\<lambda>r. - lastActiveAt (objects p r)) ?rs)"
  have unfold: "updateDisplay p = foldl renderOne ?q ?sorted"
    using False by (simp only: updateDisplay_def renderSessions_def Let_def if_False)
  have "cr < cardsMade ?q" "held c (cardElements ?q cr)"
    using assms by simp_all
  from foldl_renderOne_held [OF this, of ?sorted] show ?thesis
    unfolding unfold .
qed

lemma updateSessionCard_held:
  assumes "cr < cardsMade p" and "held c (cardElements p cr)"
  shows "cr < cardsMade (updateSessionCard r p)
         \<and> held c (cardElements (updateSessionCard r p) cr)"
  using assms
  by (auto simp add: updateSessionCard_def Let_def held_updateSessionCardDOM
      split: option.splits)

lemma setSession_cards:
  "cardsMade (foldl setSession p ss) = cardsMade p"
  "cardElements (foldl setSession p ss) = cardElements p"
  by (induction ss arbitrary: p) (simp_all add: setSession_def receive_def Let_def)

lemma handle_update_unfold:
  "handleBackgroundMessage (SESSION_UPDATED s) now p =
     updateDisplay (updateSessionCard (objectsMade p) (reconciled s now p))"
  by (simp add: handleBackgroundMessage_def reconciled_def Let_def receive_def
      split: option.splits)

lemma cards_reconciled:
  "cardsMade (reconciled s now p) = cardsMade p"
  "cardElements (reconciled s now p) = cardElements p"
  by (simp_all add: reconciled_def Let_def receive_def split: option.splits)

text \<open>
  While the progress bar of a card element has the \<^verbatim>\<open>dragging\<close> class, handling a
  message of the coordinator, whatever it is and whichever session it is about, leaves the
  rendered progress position of the card (fill, handle and the two time texts) as it is,
  and the bar keeps the class.
\<close>

lemma dragging_keeps_progress:
  assumes made: "cr < cardsMade p" and drag: "dragging (cardElements p cr)"
  shows "progressShown (cardElements (handleBackgroundMessage msg now p) cr)
           = progressShown (cardElements p cr)
         \<and> dragging (cardElements (handleBackgroundMessage msg now p) cr)"
proof -
  let ?c = "cardElements p cr"
  have h: "held ?c ?c" using drag by (simp add: held_def)
  have "held ?c (cardElements (handleBackgroundMessage msg now p) cr)"
  proof (cases msg)
    case (SESSIONS_INIT ss)
    let ?q = "foldl setSession (p\<lparr>p_sessions := []\<rparr>) ss"
    have "cr < cardsMade ?q" "held ?c (cardElements ?q cr)"
      using made h by (simp_all add: setSession_cards)
    from updateDisplay_held [OF this] show ?thesis
      by (simp add: SESSIONS_INIT handleBackgroundMessage_def)
  next
    case (SESSION_UPDATED s)
    have "cr < cardsMade (reconciled s now p)" "held ?c (cardElements (reconciled s now p) cr)"
      using made h by (simp_all only: cards_reconciled)
    from updateSessionCard_held [OF this, of "objectsMade p"]
    have "cr < cardsMade (updateSessionCard (objectsMade p) (reconciled s now p))"
      "held ?c (cardElements (updateSessionCard (objectsMade p) (reconciled s now p)) cr)"
      by simp_all
    from updateDisplay_held [OF this] show ?thesis
      by (simp only: SESSION_UPDATED handle_update_unfold)
  next
    case (SESSION_REMOVED k)
    with h show ?thesis
      by (simp add: handleBackgroundMessage_def)
  qed
  then show ?thesis
    by (simp add: held_def)
qed

text \<open>
  A pointer position the handlers cannot read (a mouse event at \<^verbatim>\<open>clientX\<close> 0) leaves the
  fill and the handle where they are.
\<close>

lemma onMove_without_position:
  "onMove session (MouseAt 0) left width c = c\<lparr>currentTimeText := ''0:00''\<rparr>"
  by (simp add: onMove_def clientXOf_def)

text \<open>
  A press on a bar while no closure is registered on the document, followed by the release:
  the popup posts \<^verbatim>\<open>beginSeek\<close>, one \<^verbatim>\<open>setTime\<close> with the time the fill stands for, and
  one \<^verbatim>\<open>endSeek\<close>.
\<close>

lemma single_drag_posts_one_pair:
  assumes "dragClosures p = []" and "port p"
    and "duration (state (objects p (captured (cardElements p cr)))) \<noteq> 0"
  shows "let session = objects p (captured (cardElements p cr));
             c = onMove session ev left width (cardElements p cr)
         in posted (documentEnd (startDrag cr ev left width p))
              = posted p @ [(session_id session, BeginSeek),
                            (session_id session,
                             SetTime (fillWidth c / 100 * duration (state session))),
                            (session_id session, EndSeek)]
            \<and> dragClosures (documentEnd (startDrag cr ev left width p)) = []"
  using assms
  by (simp add: documentEnd_def startDrag_def onEnd_def sendControlCommand_def Let_def
      onMove_def split: option.splits)

text \<open>
  Claim C8 does not hold of the code.  Its first half does: updates do not move the
  progress display of a dragged bar (\<open>dragging_keeps_progress\<close>).  Its second half fails
  when the bar is pressed twice.  The progress bar of the card shown for session \<^verbatim>\<open>7:0\<close>
  is pressed (\<open>dragged\<close>) and, before the pointer is released, pressed again
  (\<open>pressed_again\<close>: another mouse button, or a second finger).  \<^verbatim>\<open>startDrag\<close> does not
  look at \<^verbatim>\<open>isDragging\<close> and registers a second pair of closures on the document.  The one
  release that follows runs both \<^verbatim>\<open>onEnd\<close> closures: the popup posts \<^verbatim>\<open>setTime\<close>,
  \<^verbatim>\<open>endSeek\<close>, \<^verbatim>\<open>setTime\<close>, \<^verbatim>\<open>endSeek\<close>, where the claim has exactly one \<^verbatim>\<open>setTime\<close>
  followed by exactly one \<^verbatim>\<open>endSeek\<close>.
\<close>

theorem second_press_posts_two_pairs:
  "dragging (cardElements dragged 0)
   \<and> dragClosures dragged = [0]
   \<and> dragClosures pressed_again = [0, 0]
   \<and> posted pressed_again = [(''7:0'', BeginSeek), (''7:0'', BeginSeek)]
   \<and> posted released_after_two =
       [(''7:0'', BeginSeek), (''7:0'', BeginSeek),
        (''7:0'', SetTime 150), (''7:0'', EndSeek),
        (''7:0'', SetTime 150), (''7:0'', EndSeek)]
   \<and> dragClosures released_after_two = []"
  by code_simp

end
